theory Spec2Isabelle
  imports Complex_Main "HOL-Library.AList"
begin

section \<open>Python values and symbolic expressions\<close>

text \<open>
  The notebooks build symbolic residual expressions with sympy and sample sets with numpy.
  A Python float is modelled by the real number it is. Where the notebooks compute with
  floats, the arithmetic is a parameter of the model: the exact arithmetic of the reals, or
  IEEE binary64 with its rounding.
\<close>

datatype error =
    IndexError | TypeError | KeyError | AttributeError | ValueError
  | ZeroDivisionError | FileNotFoundError

text \<open>
  The Python values considered as coefficients of the equation builder: the values of the
  built-in types int, float, str, bool, complex, NoneType and list, and the numpy scalars
  \<^verbatim>\<open>np.float64\<close> and \<^verbatim>\<open>np.bool_\<close>. Values of other classes are outside the model.
\<close>

datatype pyval =
    PInt int
  | PFloat real
  | PStr string
  | PBool bool
  | PComplex real real
  | PNone
  | PList "pyval list"
  | PNumpyFloat real
  | PNumpyBool bool

datatype pytype =
    T_int | T_float | T_str | T_bool | T_complex | T_NoneType | T_list
  | T_numpy_float64 | T_numpy_bool

text \<open>
  Python's \<^verbatim>\<open>type(v)\<close>. The type of \<^verbatim>\<open>True\<close> is bool, not int, and the type of a numpy
  scalar is its numpy class, not float or bool.
\<close>

fun type_of :: "pyval \<Rightarrow> pytype" where
  "type_of (PInt _) = T_int"
| "type_of (PFloat _) = T_float"
| "type_of (PStr _) = T_str"
| "type_of (PBool _) = T_bool"
| "type_of (PComplex _ _) = T_complex"
| "type_of PNone = T_NoneType"
| "type_of (PList _) = T_list"
| "type_of (PNumpyFloat _) = T_numpy_float64"
| "type_of (PNumpyBool _) = T_numpy_bool"

text \<open>
  Symbolic expressions in the one independent variable \<^verbatim>\<open>t\<close>. \<open>Function f\<close> is the applied
  undefined function \<^verbatim>\<open>Function(f)(t)\<close>, \<open>Derivative f n\<close> is its \<open>n\<close>-th derivative with
  respect to \<^verbatim>\<open>t\<close>. The tree records the operators in the order the Python source applies
  them; sympy's automatic canonical form (flattening of sums, collecting numeric factors)
  preserves the value of an expression and is not modelled.
\<close>

datatype expr =
    Integer int
  | Float real
  | ImaginaryUnit
  | Function string
  | Derivative string nat
  | Add expr expr
  | Sub expr expr
  | Mul expr expr

text \<open>\<^verbatim>\<open>e.diff(t)\<close>: an applied undefined function differentiates to a \<open>Derivative\<close> node.\<close>

fun diff :: "expr \<Rightarrow> expr" where
  "diff (Integer _) = Integer 0"
| "diff (Float _) = Integer 0"
| "diff ImaginaryUnit = Integer 0"
| "diff (Function f) = Derivative f 1"
| "diff (Derivative f n) = Derivative f (Suc n)"
| "diff (Add a b) = Add (diff a) (diff b)"
| "diff (Sub a b) = Sub (diff a) (diff b)"
| "diff (Mul a b) = Add (Mul (diff a) b) (Mul a (diff b))"

text \<open>\<^verbatim>\<open>e.diff(t, n)\<close>.\<close>

definition diff_n :: "expr \<Rightarrow> nat \<Rightarrow> expr" where
  "diff_n e n = (diff ^^ n) e"

text \<open>
  What a local variable such as \<^verbatim>\<open>k1\<close> holds after the builder's \<^verbatim>\<open>if/elif\<close>: a sympy
  expression, or the Python value it was given, untouched.
\<close>

datatype operand = Sym expr | Raw pyval

text \<open>
  What the left operand \<open>v\<close> of \<^verbatim>\<open>v * e\<close> becomes when \<open>e\<close> is a sympy expression. The
  operand's own multiplication does not apply and sympy coerces the operand: numbers are
  accepted (a complex number becomes \<^verbatim>\<open>re + im*I\<close>); a bool, \<^verbatim>\<open>None\<close>, a string or a list
  is refused and Python raises TypeError for the unsupported operand. A numpy scalar
  multiplies through numpy's object loop, which hands sympy the Python value it holds: the
  float of an \<^verbatim>\<open>np.float64\<close>, accepted, the bool of an \<^verbatim>\<open>np.bool_\<close>, refused.
\<close>

fun sympify :: "pyval \<Rightarrow> error + expr" where
  "sympify (PInt i) = Inr (Integer i)"
| "sympify (PFloat r) = Inr (Float r)"
| "sympify (PComplex re im) = Inr (Add (Float re) (Mul (Float im) ImaginaryUnit))"
| "sympify (PNumpyFloat r) = Inr (Float r)"
| "sympify (PStr _) = Inl TypeError"
| "sympify (PBool _) = Inl TypeError"
| "sympify PNone = Inl TypeError"
| "sympify (PList _) = Inl TypeError"
| "sympify (PNumpyBool _) = Inl TypeError"

text \<open>\<^verbatim>\<open>c * e\<close> for a coefficient variable \<open>c\<close> and a sympy expression \<open>e\<close>.\<close>

fun py_mul :: "operand \<Rightarrow> expr \<Rightarrow> error + expr" where
  "py_mul (Sym a) e = Inr (Mul a e)"
| "py_mul (Raw v) e = (case sympify v of Inl err \<Rightarrow> Inl err | Inr a \<Rightarrow> Inr (Mul a e))"

text \<open>Sequencing of computations that may raise.\<close>

fun and_then :: "error + 'a \<Rightarrow> ('a \<Rightarrow> error + 'b) \<Rightarrow> error + 'b" where
  "and_then (Inl err) f = Inl err"
| "and_then (Inr x) f = f x"

text \<open>Tuple indexing \<^verbatim>\<open>xs[i]\<close> with a non-negative literal index.\<close>

definition getitem :: "'a list \<Rightarrow> nat \<Rightarrow> error + 'a" where
  "getitem xs i = (if i < length xs then Inr (xs ! i) else Inl IndexError)"

section \<open>The SpringMass equation builder\<close>

text \<open>\<^verbatim>\<open>Number(v)\<close>, which the builder applies to ints and floats only.\<close>

definition Number :: "pyval \<Rightarrow> expr" where
  "Number v = (case v of PInt i \<Rightarrow> Integer i | PFloat r \<Rightarrow> Float r | _ \<Rightarrow> Integer 0)"

text \<open>
  The block repeated for each of \<^verbatim>\<open>k1 .. k4, m1 .. m3\<close>:
  \<^verbatim>\<open>
  if type(k1) is str:
      k1 = Function(k1)(*input_variables)
  elif type(k1) in [float, int]:
      k1 = Number(k1)
  \<close>
  There is no \<^verbatim>\<open>else\<close>: a value of any other type stays as it is.
\<close>

definition coefficient :: "pyval \<Rightarrow> operand" where
  "coefficient c =
     (if type_of c = T_str then (case c of PStr name \<Rightarrow> Sym (Function name) | _ \<Rightarrow> Raw c)
      else if type_of c \<in> {T_float, T_int} then Sym (Number c)
      else Raw c)"

text \<open>
  The notebook's listing names the base class \<^verbatim>\<open>PDES\<close>; the class it imports, and the one
  the projectile builder extends, is \<^verbatim>\<open>PDE\<close>, which is the base taken here.
  The base class \<^verbatim>\<open>PDE\<close> holds the dictionary \<^verbatim>\<open>self.equations\<close> (label to residual, in
  insertion order); SpringMass adds \<^verbatim>\<open>self.k\<close> and \<^verbatim>\<open>self.m\<close>.
\<close>

record PDE =
  equations :: "(string \<times> expr) list"

record SpringMass = PDE +
  self_k :: "pyval list"
  self_m :: "pyval list"

definition SpringMass_init :: "pyval list \<Rightarrow> pyval list \<Rightarrow> error + SpringMass" where
  "SpringMass_init k m =
     and_then (getitem k 0) (\<lambda>k1.
     and_then (getitem k 1) (\<lambda>k2.
     and_then (getitem k 2) (\<lambda>k3.
     and_then (getitem k 3) (\<lambda>k4.
     and_then (getitem m 0) (\<lambda>m1.
     and_then (getitem m 1) (\<lambda>m2.
     and_then (getitem m 2) (\<lambda>m3.
       let x1 = Function ''x1''; x2 = Function ''x2''; x3 = Function ''x3'';
           k1 = coefficient k1; k2 = coefficient k2; k3 = coefficient k3; k4 = coefficient k4;
           m1 = coefficient m1; m2 = coefficient m2; m3 = coefficient m3
       in
       and_then (py_mul m1 (diff (diff x1))) (\<lambda>a1.
       and_then (py_mul k1 x1) (\<lambda>b1.
       and_then (py_mul k2 (Sub x2 x1)) (\<lambda>c1.
       and_then (py_mul m2 (diff (diff x2))) (\<lambda>a2.
       and_then (py_mul k2 (Sub x2 x1)) (\<lambda>b2.
       and_then (py_mul k3 (Sub x3 x2)) (\<lambda>c2.
       and_then (py_mul m3 (diff (diff x3))) (\<lambda>a3.
       and_then (py_mul k3 (Sub x3 x2)) (\<lambda>b3.
       and_then (py_mul k4 x3) (\<lambda>c3.
         Inr \<lparr>equations = [(''ode_x1'', Sub (Add a1 b1) c1),
                           (''ode_x2'', Sub (Add a2 b2) c2),
                           (''ode_x3'', Add (Add a3 b3) c3)],
              self_k = k, self_m = m\<rparr>))))))))))))))))"

text \<open>A coefficient taken as a constant, and a coefficient taken as an unknown function.\<close>

fun is_constant :: "expr \<Rightarrow> bool" where
  "is_constant (Integer _) = True"
| "is_constant (Float _) = True"
| "is_constant _ = False"

fun is_function :: "expr \<Rightarrow> bool" where
  "is_function (Function _) = True"
| "is_function _ = False"

text \<open>
  The term that stands for a coefficient in the residuals once construction has succeeded:
  a constant for an int or a float, a function of \<^verbatim>\<open>t\<close> for a name, \<^verbatim>\<open>re + im*I\<close> for a
  complex number, the float constant for an \<^verbatim>\<open>np.float64\<close>. With a bool, \<^verbatim>\<open>None\<close>, a list
  or an \<^verbatim>\<open>np.bool_\<close> construction does not succeed.
\<close>

fun coefficient_term :: "pyval \<Rightarrow> expr" where
  "coefficient_term (PInt i) = Integer i"
| "coefficient_term (PFloat r) = Float r"
| "coefficient_term (PStr name) = Function name"
| "coefficient_term (PComplex re im) = Add (Float re) (Mul (Float im) ImaginaryUnit)"
| "coefficient_term (PNumpyFloat r) = Float r"
| "coefficient_term v = Integer 0"

text \<open>The residuals of the three masses for given coefficient terms.\<close>

definition residuals :: "expr list \<Rightarrow> expr list \<Rightarrow> (string \<times> expr) list" where
  "residuals ks ms =
     [(''ode_x1'', Sub (Add (Mul (ms ! 0) (Derivative ''x1'' 2))
                            (Mul (ks ! 0) (Function ''x1'')))
                       (Mul (ks ! 1) (Sub (Function ''x2'') (Function ''x1'')))),
      (''ode_x2'', Sub (Add (Mul (ms ! 1) (Derivative ''x2'' 2))
                            (Mul (ks ! 1) (Sub (Function ''x2'') (Function ''x1''))))
                       (Mul (ks ! 2) (Sub (Function ''x3'') (Function ''x2'')))),
      (''ode_x3'', Add (Add (Mul (ms ! 2) (Derivative ''x3'' 2))
                            (Mul (ks ! 2) (Sub (Function ''x3'') (Function ''x2''))))
                       (Mul (ks ! 3) (Function ''x3'')))]"

section \<open>The ProjectileEquation builder\<close>

text \<open>
  \<^verbatim>\<open>
  self.equations["ode_x"] = x.diff(t,2)
  self.equations["ode_y"] = y.diff(t,2)
  \<close>
\<close>

definition ProjectileEquation_init :: PDE where
  "ProjectileEquation_init =
     (let x = Function ''x''; y = Function ''y''
      in \<lparr>equations = [(''ode_x'', diff_n x 2), (''ode_y'', diff_n y 2)]\<rparr>)"

section \<open>Substituting functions into a residual\<close>

text \<open>
  An environment gives, for every function name, the function and its derivatives of every
  order; substituting it into an expression and evaluating at a time \<open>t\<close> gives a number
  (complex, because a coefficient may be).
\<close>

type_synonym env = "string \<Rightarrow> nat \<Rightarrow> real \<Rightarrow> real"

fun eval :: "env \<Rightarrow> real \<Rightarrow> expr \<Rightarrow> complex" where
  "eval env t (Integer i) = of_int i"
| "eval env t (Float r) = of_real r"
| "eval env t ImaginaryUnit = \<i>"
| "eval env t (Function f) = of_real (env f 0 t)"
| "eval env t (Derivative f n) = of_real (env f n t)"
| "eval env t (Add a b) = eval env t a + eval env t b"
| "eval env t (Sub a b) = eval env t a - eval env t b"
| "eval env t (Mul a b) = eval env t a * eval env t b"

text \<open>An environment is a trajectory when each order is the derivative of the one before.\<close>

definition trajectory :: "env \<Rightarrow> bool" where
  "trajectory env \<longleftrightarrow> (\<forall>f n t. (env f n has_field_derivative env f (Suc n) t) (at t))"

text \<open>\<^verbatim>\<open>e.subs(Function(f)(t), c)\<close> for a constant \<open>c\<close>: derivatives of \<open>f\<close> become zero.\<close>

fun subs :: "string \<Rightarrow> expr \<Rightarrow> expr \<Rightarrow> expr" where
  "subs f c (Function g) = (if g = f then c else Function g)"
| "subs f c (Derivative g n) = (if g = f then (diff ^^ n) c else Derivative g n)"
| "subs f c (Add a b) = Add (subs f c a) (subs f c b)"
| "subs f c (Sub a b) = Sub (subs f c a) (subs f c b)"
| "subs f c (Mul a b) = Mul (subs f c a) (subs f c b)"
| "subs f c e = e"

text \<open>The names of the undefined functions occurring in an expression, one entry per occurrence.\<close>

fun function_names :: "expr \<Rightarrow> string list" where
  "function_names (Function f) = [f]"
| "function_names (Derivative f n) = [f]"
| "function_names (Add a b) = function_names a @ function_names b"
| "function_names (Sub a b) = function_names a @ function_names b"
| "function_names (Mul a b) = function_names a @ function_names b"
| "function_names e = []"

section \<open>The closed-form solution of the spring-mass system\<close>

text \<open>
  A sum of cosine harmonics \<open>a * cos (w * t)\<close> is a list of pairs (amplitude, frequency).
  Its \<open>n\<close>-th derivative is \<open>a * w ^ n * cos (w * t + n * pi / 2)\<close>, summed.
\<close>

type_synonym harmonics = "(real \<times> real) list"

definition cosines :: "harmonics \<Rightarrow> nat \<Rightarrow> real \<Rightarrow> real" where
  "cosines hs n t = (\<Sum>(a, w) \<leftarrow> hs. a * w ^ n * cos (w * t + real n * pi / 2))"

text \<open>
  The amplitudes and frequencies of \<^verbatim>\<open>outvar_numpy\<close> in the notebook:
  \<^verbatim>\<open>
  "x1": (1 / 6) * np.cos(t) + (1 / 2) * np.cos(np.sqrt(3) * t) + (1 / 3) * np.cos(2 * t)
  "x2": (2 / 6) * np.cos(t) + (0 / 2) * np.cos(np.sqrt(3) * t) - (1 / 3) * np.cos(2 * t)
  "x3": (1 / 6) * np.cos(t) - (1 / 2) * np.cos(np.sqrt(3) * t) + (1 / 3) * np.cos(2 * t)
  \<close>
\<close>

definition closed_form :: "string \<Rightarrow> harmonics" where
  "closed_form f =
     (if f = ''x1'' then [(1 / 6, 1), (1 / 2, sqrt 3), (1 / 3, 2)]
      else if f = ''x2'' then [(2 / 6, 1), (0 / 2, sqrt 3), (- (1 / 3), 2)]
      else if f = ''x3'' then [(1 / 6, 1), (- (1 / 2), sqrt 3), (1 / 3, 2)]
      else [])"

definition solution_env :: env where
  "solution_env f n t = cosines (closed_form f) n t"

text \<open>
  A constraint asks each named residual to take its target value: at time \<open>t\<close>, under the
  functions of \<open>env\<close>, every label of the target dictionary names a residual whose value is
  the target.
\<close>

definition constraint_holds ::
  "env \<Rightarrow> real \<Rightarrow> (string \<times> expr) list \<Rightarrow> (string \<times> real) list \<Rightarrow> bool" where
  "constraint_holds env t eqs targets \<longleftrightarrow>
     list_all (\<lambda>(l, target).
        case map_of eqs l of None \<Rightarrow> False | Some e \<Rightarrow> eval env t e = of_real target) targets"

section \<open>Floating-point arithmetic\<close>

text \<open>
  A Python float and a numpy \<^verbatim>\<open>float64\<close> are IEEE binary64 numbers: every operation gives
  the representable number nearest to the exact result, ties going to the even mantissa.
  A float is modelled by the real number it is; overflow, underflow and the special values
  are not modelled, the numbers met here being far from them.
\<close>

definition round_half_even :: "real \<Rightarrow> int" where
  "round_half_even x =
     (let n = \<lfloor>x\<rfloor>; r = x - of_int n
      in if r < 1 / 2 then n else if 1 / 2 < r then n + 1 else if even n then n else n + 1)"

text \<open>
  The spacing of the binary64 numbers around a positive \<open>x\<close>: \<open>2 ^ -52\<close> for \<open>x\<close> in
  \<open>[1, 2)\<close>, halved or doubled with each binade; the first argument bounds the search.
\<close>

fun ulp :: "nat \<Rightarrow> real \<Rightarrow> real" where
  "ulp 0 x = 1 / 4503599627370496"
| "ulp (Suc n) x =
     (if x < 1 then ulp n (2 * x) / 2
      else if 2 \<le> x then ulp n (x / 2) * 2
      else 1 / 4503599627370496)"

text \<open>The binary64 number nearest to a real number.\<close>

definition double :: "real \<Rightarrow> real" where
  "double x =
     (if x = 0 then 0
      else let u = ulp 1100 \<bar>x\<bar> in of_int (round_half_even (x / u)) * u)"

text \<open>
  The operations the notebooks apply to floats. \<open>literal\<close> is the float a decimal literal
  or a constant such as \<^verbatim>\<open>np.pi\<close> denotes. Two arithmetics are considered: the exact one
  of the real numbers, in which the formulas of the notebooks mean what they mean on paper,
  and binary64, in which they run (with the library functions taken as correctly rounded).
\<close>

record arithmetic =
  literal :: "real \<Rightarrow> real"
  f_add :: "real \<Rightarrow> real \<Rightarrow> real"
  f_sub :: "real \<Rightarrow> real \<Rightarrow> real"
  f_mul :: "real \<Rightarrow> real \<Rightarrow> real"
  f_div :: "real \<Rightarrow> real \<Rightarrow> real"
  f_cos :: "real \<Rightarrow> real"
  f_sin :: "real \<Rightarrow> real"
  f_sqrt :: "real \<Rightarrow> real"

definition exact :: arithmetic where
  "exact = \<lparr>literal = (\<lambda>x. x),
            f_add = (\<lambda>a b. a + b), f_sub = (\<lambda>a b. a - b),
            f_mul = (\<lambda>a b. a * b), f_div = (\<lambda>a b. a / b),
            f_cos = cos, f_sin = sin, f_sqrt = sqrt\<rparr>"

definition binary64 :: arithmetic where
  "binary64 = \<lparr>literal = double,
               f_add = (\<lambda>a b. double (a + b)), f_sub = (\<lambda>a b. double (a - b)),
               f_mul = (\<lambda>a b. double (a * b)), f_div = (\<lambda>a b. double (a / b)),
               f_cos = (\<lambda>x. double (cos x)), f_sin = (\<lambda>x. double (sin x)),
               f_sqrt = (\<lambda>x. double (sqrt x))\<rparr>"

section \<open>numpy arrays and sample sets\<close>

text \<open>
  A one-dimensional array is a list; a two-dimensional array is the list of its rows.
  The binary operations are applied in the notebooks to arrays of one shape only.
\<close>

type_synonym vector = "real list"
type_synonym ndarray = "real list list"

text \<open>
  \<^verbatim>\<open>np.arange(start, stop, step)\<close>: \<open>ceil((stop - start) / step)\<close> values
  \<open>start + i * step\<close>. (numpy steps by the difference of its first two values, which is
  \<open>step\<close> itself when \<open>start\<close> is 0, as it is in the notebooks.)
\<close>

definition arange :: "arithmetic \<Rightarrow> real \<Rightarrow> real \<Rightarrow> real \<Rightarrow> error + vector" where
  "arange ar start stop step =
     (if step = 0 then Inl ZeroDivisionError
      else Inr (map (\<lambda>i. f_add ar start (f_mul ar (real i) step))
                    [0..<nat \<lceil>f_div ar (f_sub ar stop start) step\<rceil>]))"

text \<open>\<^verbatim>\<open>np.expand_dims(v, axis=-1)\<close> of a one-dimensional array: one row per element.\<close>

definition expand_dims :: "vector \<Rightarrow> ndarray" where
  "expand_dims v = map (\<lambda>x. [x]) v"

text \<open>\<^verbatim>\<open>c * a\<close> for a scalar \<open>c\<close>.\<close>

definition scalar_mul :: "arithmetic \<Rightarrow> real \<Rightarrow> ndarray \<Rightarrow> ndarray" where
  "scalar_mul ar c a = map (map (\<lambda>x. f_mul ar c x)) a"

definition np_cos :: "arithmetic \<Rightarrow> ndarray \<Rightarrow> ndarray" where
  "np_cos ar a = map (map (f_cos ar)) a"

text \<open>\<^verbatim>\<open>a ** 2\<close>, which numpy computes as the product of each element with itself.\<close>

definition np_square :: "arithmetic \<Rightarrow> ndarray \<Rightarrow> ndarray" where
  "np_square ar a = map (map (\<lambda>x. f_mul ar x x)) a"

definition np_add :: "arithmetic \<Rightarrow> ndarray \<Rightarrow> ndarray \<Rightarrow> ndarray" where
  "np_add ar a b = map2 (map2 (f_add ar)) a b"

definition np_sub :: "arithmetic \<Rightarrow> ndarray \<Rightarrow> ndarray \<Rightarrow> ndarray" where
  "np_sub ar a b = map2 (map2 (f_sub ar)) a b"

definition full_like :: "ndarray \<Rightarrow> real \<Rightarrow> ndarray" where
  "full_like a v = map (map (\<lambda>_. v)) a"

text \<open>
  A sample set built from numpy arrays: the dictionaries \<^verbatim>\<open>invar\<close> and \<^verbatim>\<open>outvar\<close> (in
  insertion order) and the batch size handed to the framework.
\<close>

record sample_set =
  invar :: "(string \<times> ndarray) list"
  outvar :: "(string \<times> ndarray) list"
  batch_size :: nat

subsection \<open>Projectile: constraints and validator\<close>

definition v_o :: "arithmetic \<Rightarrow> real" where
  "v_o ar = literal ar 40.0"

definition theta :: "arithmetic \<Rightarrow> real" where
  "theta ar = f_div ar (literal ar pi) 3"

text \<open>A parameterization pins a variable to a constant or lets it range over an interval.\<close>

datatype parameter = Fixed real | Range real real

text \<open>
  The arguments of a \<^verbatim>\<open>PointwiseBoundaryConstraint\<close>: the target dictionary, the number of
  points to sample and the parameterization. The sampling itself is the framework's.
\<close>

record boundary_constraint =
  bc_outvar :: "(string \<times> real) list"
  bc_batch_size :: nat
  bc_parameterization :: "(string \<times> parameter) list"

text \<open>The batch sizes of the configuration file.\<close>

record batch_sizes =
  cfg_IC :: nat
  cfg_interior :: nat
  cfg_data :: nat

definition projectile_IC :: "arithmetic \<Rightarrow> batch_sizes \<Rightarrow> boundary_constraint" where
  "projectile_IC ar cfg =
     \<lparr>bc_outvar = [(''x'', literal ar 0.0), (''y'', literal ar 0.0),
                   (''x__t'', f_mul ar (v_o ar) (f_cos ar (theta ar))),
                   (''y__t'', f_mul ar (v_o ar) (f_sin ar (theta ar)))],
      bc_batch_size = cfg_IC cfg,
      bc_parameterization = [(''t'', Fixed (literal ar 0.0))]\<rparr>"

definition projectile_interior :: "arithmetic \<Rightarrow> batch_sizes \<Rightarrow> boundary_constraint" where
  "projectile_interior ar cfg =
     \<lparr>bc_outvar = [(''ode_x'', literal ar 0.0), (''ode_y'', - literal ar 9.81)],
      bc_batch_size = cfg_interior cfg,
      bc_parameterization = [(''t'', Range (literal ar 0.0) (literal ar 5.0))]\<rparr>"

text \<open>
  \<^verbatim>\<open>
  delta_T = 0.01
  t_val = np.arange(0.,5.,delta_T)
  T_val = np.expand_dims(t_val.flatten(), axis = -1)
  X_val =  v_o*np.cos(theta)*T_val
  Y_val =  v_o*np.sin(theta)*T_val - 0.5*9.81*(T_val**2)
  \<close>
\<close>

definition projectile_validator :: "arithmetic \<Rightarrow> error + sample_set" where
  "projectile_validator ar =
     (let delta_T = literal ar 0.01 in
      and_then (arange ar 0 5 delta_T) (\<lambda>t_val.
        let T_val = expand_dims t_val;
            X_val = scalar_mul ar (f_mul ar (v_o ar) (f_cos ar (theta ar))) T_val;
            Y_val = np_sub ar (scalar_mul ar (f_mul ar (v_o ar) (f_sin ar (theta ar))) T_val)
                      (scalar_mul ar (f_mul ar (literal ar 0.5) (literal ar 9.81))
                         (np_square ar T_val))
        in Inr \<lparr>invar = [(''t'', T_val)],
                outvar = [(''x'', X_val), (''y'', Y_val)],
                batch_size = 128\<rparr>))"

subsection \<open>Spring-mass: constraints, validator and inverse data\<close>

definition t_max :: real where "t_max = 10.0"

definition spring_mass_IC :: "batch_sizes \<Rightarrow> boundary_constraint" where
  "spring_mass_IC cfg =
     \<lparr>bc_outvar = [(''x1'', 1.0), (''x2'', 0), (''x3'', 0),
                   (''x1__t'', 0), (''x2__t'', 0), (''x3__t'', 0)],
      bc_batch_size = cfg_IC cfg,
      bc_parameterization = [(''t'', Fixed 0)]\<rparr>"

definition spring_mass_interior :: "batch_sizes \<Rightarrow> boundary_constraint" where
  "spring_mass_interior cfg =
     \<lparr>bc_outvar = [(''ode_x1'', 0.0), (''ode_x2'', 0.0), (''ode_x3'', 0.0)],
      bc_batch_size = cfg_interior cfg,
      bc_parameterization = [(''t'', Range 0 t_max)]\<rparr>"

text \<open>The dictionary \<^verbatim>\<open>outvar_numpy\<close> of displacements on the grid \<open>t\<close>, as the notebook writes it.\<close>

definition displacements :: "arithmetic \<Rightarrow> ndarray \<Rightarrow> (string \<times> ndarray) list" where
  "displacements ar t =
     [(''x1'', np_add ar
                 (np_add ar (scalar_mul ar (f_div ar 1 6) (np_cos ar t))
                            (scalar_mul ar (f_div ar 1 2)
                               (np_cos ar (scalar_mul ar (f_sqrt ar 3) t))))
                 (scalar_mul ar (f_div ar 1 3) (np_cos ar (scalar_mul ar 2 t)))),
      (''x2'', np_sub ar
                 (np_add ar (scalar_mul ar (f_div ar 2 6) (np_cos ar t))
                            (scalar_mul ar (f_div ar 0 2)
                               (np_cos ar (scalar_mul ar (f_sqrt ar 3) t))))
                 (scalar_mul ar (f_div ar 1 3) (np_cos ar (scalar_mul ar 2 t)))),
      (''x3'', np_add ar
                 (np_sub ar (scalar_mul ar (f_div ar 1 6) (np_cos ar t))
                            (scalar_mul ar (f_div ar 1 2)
                               (np_cos ar (scalar_mul ar (f_sqrt ar 3) t))))
                 (scalar_mul ar (f_div ar 1 3) (np_cos ar (scalar_mul ar 2 t))))]"

definition spring_mass_validator :: "arithmetic \<Rightarrow> error + sample_set" where
  "spring_mass_validator ar =
     (let deltaT = literal ar 0.001 in
      and_then (arange ar 0 t_max deltaT) (\<lambda>t.
        let t = expand_dims t
        in Inr \<lparr>invar = [(''t'', t)], outvar = displacements ar t, batch_size = 1024\<rparr>))"

text \<open>The inverse problem: the same initial condition, and data with zero residual targets.\<close>

definition inverse_IC :: "batch_sizes \<Rightarrow> boundary_constraint" where
  "inverse_IC cfg =
     \<lparr>bc_outvar = [(''x1'', 1.0), (''x2'', 0), (''x3'', 0),
                   (''x1__t'', 0), (''x2__t'', 0), (''x3__t'', 0)],
      bc_batch_size = cfg_IC cfg,
      bc_parameterization = [(''t'', Fixed 0)]\<rparr>"

definition inverse_data :: "arithmetic \<Rightarrow> batch_sizes \<Rightarrow> error + sample_set" where
  "inverse_data ar cfg =
     (let deltaT = literal ar 0.01 in
      and_then (arange ar 0 t_max deltaT) (\<lambda>t.
        let t = expand_dims t;
            invar_numpy = [(''t'', t)];
            outvar_numpy = displacements ar t;
            outvar_numpy = AList.update ''ode_x1'' (full_like t 0) outvar_numpy;
            outvar_numpy = AList.update ''ode_x2'' (full_like t 0) outvar_numpy;
            outvar_numpy = AList.update ''ode_x3'' (full_like t 0) outvar_numpy
        in Inr \<lparr>invar = invar_numpy, outvar = outvar_numpy, batch_size = cfg_data cfg\<rparr>))"

text \<open>Every target array of a sample set has as many rows as every input array.\<close>

definition rows_agree :: "sample_set \<Rightarrow> bool" where
  "rows_agree s \<longleftrightarrow>
     list_all (\<lambda>target. list_all (\<lambda>input. length target = length input) (map snd (invar s)))
              (map snd (outvar s))"

text \<open>The first row of a named target array of a sample set, when there is one.\<close>

definition first_row :: "error + sample_set \<Rightarrow> string \<Rightarrow> real list option" where
  "first_row r name =
     (case r of
        Inl _ \<Rightarrow> None
      | Inr s \<Rightarrow>
          (case map_of (outvar s) name of
             None \<Rightarrow> None
           | Some a \<Rightarrow> if a = [] then None else Some (a ! 0)))"

section \<open>Loading and plotting the result arrays\<close>

text \<open>
  A stored two-dimensional array with its shape: the number of columns and the rows, each
  of which has that many entries. The validator writes arrays of one column.
\<close>

record array2d =
  ncols :: nat
  rows :: "real list list"

text \<open>
  The validator persists one dictionary of named two-dimensional arrays, pickled as the
  entry \<^verbatim>\<open>arr_0\<close> of an archive. The file system maps a path, relative to the working
  directory, to the archive stored there.
\<close>

type_synonym result_arrays = "(string \<times> array2d) list"
type_synonym npz = "(string \<times> result_arrays) list"
type_synonym filesystem = "string \<rightharpoonup> npz"

text \<open>\<^verbatim>\<open>np.load(path, allow_pickle=True)\<close>: opening a path that does not exist raises.\<close>

definition np_load :: "filesystem \<Rightarrow> string \<Rightarrow> error + npz" where
  "np_load fs path = (case fs path of None \<Rightarrow> Inl FileNotFoundError | Some archive \<Rightarrow> Inr archive)"

text \<open>\<^verbatim>\<open>np.atleast_1d(data.f.arr_0)[0]\<close>: the dictionary stored under \<^verbatim>\<open>arr_0\<close>.\<close>

definition arr_0 :: "npz \<Rightarrow> error + result_arrays" where
  "arr_0 archive =
     (case map_of archive ''arr_0'' of None \<Rightarrow> Inl AttributeError | Some d \<Rightarrow> Inr d)"

text \<open>\<^verbatim>\<open>data[key]\<close>.\<close>

definition lookup :: "result_arrays \<Rightarrow> string \<Rightarrow> error + array2d" where
  "lookup d key = (case map_of d key of None \<Rightarrow> Inl KeyError | Some a \<Rightarrow> Inr a)"

text \<open>The column \<open>j\<close> of an array, for \<open>j\<close> below the number of columns.\<close>

definition column :: "array2d \<Rightarrow> nat \<Rightarrow> vector" where
  "column a j = map (\<lambda>r. r ! j) (rows a)"

text \<open>\<^verbatim>\<open>a[:, 0]\<close>: the first column; an array without columns has none.\<close>

definition column0 :: "array2d \<Rightarrow> error + vector" where
  "column0 a = (if ncols a = 0 then Inl IndexError else Inr (column a 0))"

text \<open>\<^verbatim>\<open>data[key][:, 0]\<close>.\<close>

definition lookup_column0 :: "result_arrays \<Rightarrow> string \<Rightarrow> error + vector" where
  "lookup_column0 d key = and_then (lookup d key) column0"

text \<open>
  The state of \<^verbatim>\<open>matplotlib.pyplot\<close>: the axes of the current figure in the order of their
  creation, the last one being current, each with the lines drawn on it.
\<close>

datatype plot_data = Vec vector | Mat array2d

fun first_dimension :: "plot_data \<Rightarrow> nat" where
  "first_dimension (Vec v) = length v"
| "first_dimension (Mat a) = length (rows a)"

text \<open>A one-dimensional argument of \<^verbatim>\<open>plt.plot\<close> counts as one column.\<close>

fun column_count :: "plot_data \<Rightarrow> nat" where
  "column_count (Vec v) = 1"
| "column_count (Mat a) = ncols a"

fun data_column :: "plot_data \<Rightarrow> nat \<Rightarrow> vector" where
  "data_column (Vec v) j = v"
| "data_column (Mat a) j = column a j"

record curve =
  xdata :: vector
  ydata :: vector
  fmt :: string
  label :: string

record axes =
  position :: "nat \<times> nat \<times> nat"
  curves :: "curve list"

type_synonym figure = "axes list"

text \<open>\<^verbatim>\<open>plt.subplot(nrows, ncols, index)\<close>, called once for each position.\<close>

definition subplot :: "nat \<Rightarrow> nat \<Rightarrow> nat \<Rightarrow> figure \<Rightarrow> figure" where
  "subplot nrows ncolumns index fig =
     fig @ [\<lparr>position = (nrows, ncolumns, index), curves = []\<rparr>]"

text \<open>
  \<^verbatim>\<open>plt.plot(x, y, fmt, label=label)\<close>. x and y must have the same first dimension, and
  the same number of columns when both have more than one. One line is drawn for each
  column, a single column being paired with every column of the other argument, and each
  line carries the label; without columns nothing is drawn. Without a current axes one is
  created.
\<close>

definition plot :: "plot_data \<Rightarrow> plot_data \<Rightarrow> string \<Rightarrow> string \<Rightarrow> figure \<Rightarrow> error + figure" where
  "plot x y f l fig =
     (let ncx = column_count x; ncy = column_count y in
      if first_dimension x \<noteq> first_dimension y then Inl ValueError
      else if 1 < ncx \<and> 1 < ncy \<and> ncx \<noteq> ncy then Inl ValueError
      else
        let lines =
              (if ncx = 0 \<or> ncy = 0 then []
               else map (\<lambda>j. \<lparr>xdata = data_column x (j mod ncx),
                               ydata = data_column y (j mod ncy),
                               fmt = f, label = l\<rparr>) [0..<max ncx ncy])
        in Inr (case fig of
                  [] \<Rightarrow> [\<lparr>position = (1, 1, 1), curves = lines\<rparr>]
                | _ \<Rightarrow> butlast fig @ [(last fig)\<lparr>curves := curves (last fig) @ lines\<rparr>]))"

text \<open>The plotting cell of the projectile notebook; the result is the figure and the name it is saved under.\<close>

definition projectile_plot :: "filesystem \<Rightarrow> error + (figure \<times> string)" where
  "projectile_plot fs =
     (let fig = []; network_dir = ''./outputs/projectile/validators/'' in
      and_then (np_load fs (network_dir @ ''validator.npz'')) (\<lambda>data_1.
      and_then (arr_0 data_1) (\<lambda>data_1.
      let fig = subplot 1 2 1 fig in
      and_then (lookup_column0 data_1 ''t'') (\<lambda>t.
      and_then (lookup_column0 data_1 ''pred_x'') (\<lambda>pred_x.
      and_then (plot (Vec t) (Vec pred_x) ''--'' ''x_pred'' fig) (\<lambda>fig.
      and_then (lookup_column0 data_1 ''t'') (\<lambda>t.
      and_then (lookup_column0 data_1 ''true_x'') (\<lambda>true_x.
      and_then (plot (Vec t) (Vec true_x) '''' ''x_true'' fig) (\<lambda>fig.
      let fig = subplot 1 2 2 fig in
      and_then (lookup_column0 data_1 ''t'') (\<lambda>t.
      and_then (lookup_column0 data_1 ''pred_y'') (\<lambda>pred_y.
      and_then (plot (Vec t) (Vec pred_y) ''--'' ''y_pred'' fig) (\<lambda>fig.
      and_then (lookup_column0 data_1 ''t'') (\<lambda>t.
      and_then (lookup_column0 data_1 ''true_y'') (\<lambda>true_y.
      and_then (plot (Vec t) (Vec true_y) '''' ''y_true'' fig) (\<lambda>fig.
        Inr (fig, ''prediction''))))))))))))))))"

text \<open>One \<^verbatim>\<open>plt.plot(data["t"], data[key], label=l)\<close> of the spring-mass cell.\<close>

definition plot_key :: "result_arrays \<Rightarrow> string \<Rightarrow> string \<Rightarrow> figure \<Rightarrow> error + figure" where
  "plot_key d key l fig =
     and_then (lookup d ''t'') (\<lambda>t.
     and_then (lookup d key) (\<lambda>a.
       plot (Mat t) (Mat a) '''' l fig))"

text \<open>The plotting cell of the spring-mass notebook.\<close>

definition spring_mass_plot :: "filesystem \<Rightarrow> error + (figure \<times> string)" where
  "spring_mass_plot fs =
     (let base_dir = ''outputs/spring_mass_solver/validators/'' in
      and_then (np_load fs (base_dir @ ''validator.npz'')) (\<lambda>data.
      and_then (arr_0 data) (\<lambda>data.
      and_then (plot_key data ''true_x1'' ''True x1'' []) (\<lambda>fig.
      and_then (plot_key data ''true_x2'' ''True x2'' fig) (\<lambda>fig.
      and_then (plot_key data ''true_x3'' ''True x3'' fig) (\<lambda>fig.
      and_then (plot_key data ''pred_x1'' ''Pred x1'' fig) (\<lambda>fig.
      and_then (plot_key data ''pred_x2'' ''Pred x2'' fig) (\<lambda>fig.
      and_then (plot_key data ''pred_x3'' ''Pred x3'' fig) (\<lambda>fig.
        Inr (fig, ''comparison_spring_mass.png''))))))))))"

text \<open>
  The dictionary the validator writes for the dependent variables \<open>vars\<close>: the array
  \<^verbatim>\<open>t\<close> and, for each variable, a true and a predicted array, every array with one column
  and all with the same number of rows.
\<close>

definition one_column :: "array2d \<Rightarrow> nat \<Rightarrow> bool" where
  "one_column a n \<longleftrightarrow>
     ncols a = 1 \<and> length (rows a) = n \<and> list_all (\<lambda>r. length r = 1) (rows a)"

definition has_array :: "result_arrays \<Rightarrow> nat \<Rightarrow> string \<Rightarrow> bool" where
  "has_array d n key = (case map_of d key of None \<Rightarrow> False | Some a \<Rightarrow> one_column a n)"

definition validator_bundle :: "string list \<Rightarrow> result_arrays \<Rightarrow> bool" where
  "validator_bundle vars d =
     (case map_of d ''t'' of
        None \<Rightarrow> False
      | Some t \<Rightarrow> one_column t (length (rows t)) \<and>
          list_all (\<lambda>v. has_array d (length (rows t)) (''true_'' @ v) \<and>
                        has_array d (length (rows t)) (''pred_'' @ v)) vars)"

section \<open>Derivatives of the closed-form solution\<close>

lemma cosines_deriv:
  "(cosines hs n has_field_derivative cosines hs (Suc n) t) (at t)"
proof (induction hs)
  case Nil
  show ?case by (simp add: cosines_def)
next
  case (Cons h hs)
  obtain a w where h: "h = (a, w)" by (cases h)
  have one: "((\<lambda>t. a * w ^ n * cos (w * t + real n * pi / 2)) has_field_derivative
               a * w ^ Suc n * cos (w * t + real (Suc n) * pi / 2)) (at t)"
  proof -
    have "cos (w * t + real (Suc n) * pi / 2) = - sin (w * t + real n * pi / 2)"
      using cos_add [of "w * t + real n * pi / 2" "pi / 2"]
      by (simp add: algebra_simps add_divide_distrib)
    then show ?thesis
      by (auto intro!: derivative_eq_intros simp: algebra_simps)
  qed
  have "cosines (h # hs) n = (\<lambda>t. a * w ^ n * cos (w * t + real n * pi / 2) + cosines hs n t)"
    by (rule ext) (simp add: cosines_def h)
  moreover have "cosines (h # hs) (Suc n) t =
      a * w ^ Suc n * cos (w * t + real (Suc n) * pi / 2) + cosines hs (Suc n) t"
    by (simp add: cosines_def h)
  ultimately show ?case
    using DERIV_add [OF one Cons.IH] by simp
qed

lemma trajectory_solution_env: "trajectory solution_env"
proof -
  have "solution_env f n = cosines (closed_form f) n" for f n
    by (rule ext) (simp add: solution_env_def)
  then show ?thesis
    unfolding trajectory_def using cosines_deriv by simp
qed

lemma cosines_0: "cosines hs 0 t = (\<Sum>(a, w) \<leftarrow> hs. a * cos (w * t))"
  by (simp add: cosines_def)

lemma cosines_2: "cosines hs 2 t = (\<Sum>(a, w) \<leftarrow> hs. - (a * w\<^sup>2 * cos (w * t)))"
proof -
  have "cos (w * t + real 2 * pi / 2) = - cos (w * t)" for w
    by simp
  then show ?thesis by (simp add: cosines_def)
qed

lemma sol_x1: "solution_env ''x1'' 0 t = 1 / 6 * cos t + 1 / 2 * cos (sqrt 3 * t) + 1 / 3 * cos (2 * t)"
  by (simp add: solution_env_def closed_form_def cosines_0)
lemma sol_x2: "solution_env ''x2'' 0 t = 2 / 6 * cos t + 0 / 2 * cos (sqrt 3 * t) - 1 / 3 * cos (2 * t)"
  by (simp add: solution_env_def closed_form_def cosines_0)
lemma sol_x3: "solution_env ''x3'' 0 t = 1 / 6 * cos t - 1 / 2 * cos (sqrt 3 * t) + 1 / 3 * cos (2 * t)"
  by (simp add: solution_env_def closed_form_def cosines_0)

lemma acc_x1: "solution_env ''x1'' 2 t = - (1 / 6 * cos t) - 3 / 2 * cos (sqrt 3 * t) - 4 / 3 * cos (2 * t)"
  by (simp add: solution_env_def closed_form_def cosines_2)
lemma acc_x2: "solution_env ''x2'' 2 t = - (2 / 6 * cos t) + 4 / 3 * cos (2 * t)"
  by (simp add: solution_env_def closed_form_def cosines_2)
lemma acc_x3: "solution_env ''x3'' 2 t = - (1 / 6 * cos t) + 3 / 2 * cos (sqrt 3 * t) - 4 / 3 * cos (2 * t)"
  by (simp add: solution_env_def closed_form_def cosines_2)

section \<open>The SpringMass builder on every coefficient tuple\<close>

lemma py_mul_coefficient:
  "py_mul (coefficient c) e =
     (if type_of c \<in> {T_bool, T_NoneType, T_list, T_numpy_bool} then Inl TypeError
      else Inr (Mul (coefficient_term c) e))"
  by (cases c) (simp_all add: coefficient_def Number_def)

lemma list4: "length xs = 4 \<Longrightarrow> \<exists>a b c d. xs = [a, b, c, d]"
  by (auto simp: length_Suc_conv numeral_eq_Suc)

lemma list3: "length xs = 3 \<Longrightarrow> \<exists>a b c. xs = [a, b, c]"
  by (auto simp: length_Suc_conv numeral_eq_Suc)

lemma SpringMass_init_accepted:
  assumes "length k = 4" and "length m = 3"
    and "\<forall>c \<in> set (k @ m). type_of c \<notin> {T_bool, T_NoneType, T_list, T_numpy_bool}"
  shows "SpringMass_init k m =
           Inr \<lparr>equations = residuals (map coefficient_term k) (map coefficient_term m),
                self_k = k, self_m = m\<rparr>"
proof -
  obtain k1 k2 k3 k4 where k: "k = [k1, k2, k3, k4]"
    using list4 [OF assms(1)] by blast
  obtain m1 m2 m3 where m: "m = [m1, m2, m3]"
    using list3 [OF assms(2)] by blast
  have ok: "\<And>c e. c \<in> set (k @ m) \<Longrightarrow> py_mul (coefficient c) e = Inr (Mul (coefficient_term c) e)"
    using assms(3) by (simp add: py_mul_coefficient)
  have each: "\<And>e. py_mul (coefficient k1) e = Inr (Mul (coefficient_term k1) e)"
      "\<And>e. py_mul (coefficient k2) e = Inr (Mul (coefficient_term k2) e)"
      "\<And>e. py_mul (coefficient k3) e = Inr (Mul (coefficient_term k3) e)"
      "\<And>e. py_mul (coefficient k4) e = Inr (Mul (coefficient_term k4) e)"
      "\<And>e. py_mul (coefficient m1) e = Inr (Mul (coefficient_term m1) e)"
      "\<And>e. py_mul (coefficient m2) e = Inr (Mul (coefficient_term m2) e)"
      "\<And>e. py_mul (coefficient m3) e = Inr (Mul (coefficient_term m3) e)"
    using ok by (simp_all add: k m)
  show ?thesis
    unfolding SpringMass_init_def
    by (simp add: k m getitem_def each Let_def residuals_def numeral_2_eq_2)
qed

lemma SpringMass_init_refused:
  assumes "length k = 4" and "length m = 3"
    and "\<exists>c \<in> set (k @ m). type_of c \<in> {T_bool, T_NoneType, T_list, T_numpy_bool}"
  shows "SpringMass_init k m = Inl TypeError"
proof -
  obtain k1 k2 k3 k4 where k: "k = [k1, k2, k3, k4]"
    using list4 [OF assms(1)] by blast
  obtain m1 m2 m3 where m: "m = [m1, m2, m3]"
    using list3 [OF assms(2)] by blast
  define bad where "bad c \<longleftrightarrow> type_of c \<in> {T_bool, T_NoneType, T_list, T_numpy_bool}" for c
  have mul: "\<And>c e. py_mul (coefficient c) e =
      (if bad c then Inl TypeError else Inr (Mul (coefficient_term c) e))"
    by (simp add: py_mul_coefficient bad_def)
  have some: "bad k1 \<or> bad k2 \<or> bad k3 \<or> bad k4 \<or> bad m1 \<or> bad m2 \<or> bad m3"
    using assms(3) by (auto simp: k m bad_def)
  show ?thesis
    unfolding SpringMass_init_def
    using some by (auto simp: k m getitem_def mul Let_def)
qed

lemma forward_equations:
  "SpringMass_init [PInt 2, PInt 1, PInt 1, PInt 2] [PInt 1, PInt 1, PInt 1] =
     Inr \<lparr>equations =
      [(''ode_x1'', Sub (Add (Mul (Integer 1) (Derivative ''x1'' 2))
                             (Mul (Integer 2) (Function ''x1'')))
                        (Mul (Integer 1) (Sub (Function ''x2'') (Function ''x1'')))),
       (''ode_x2'', Sub (Add (Mul (Integer 1) (Derivative ''x2'' 2))
                             (Mul (Integer 1) (Sub (Function ''x2'') (Function ''x1''))))
                        (Mul (Integer 1) (Sub (Function ''x3'') (Function ''x2'')))),
       (''ode_x3'', Add (Add (Mul (Integer 1) (Derivative ''x3'' 2))
                             (Mul (Integer 1) (Sub (Function ''x3'') (Function ''x2''))))
                        (Mul (Integer 2) (Function ''x3'')))],
      self_k = [PInt 2, PInt 1, PInt 1, PInt 2], self_m = [PInt 1, PInt 1, PInt 1]\<rparr>"
  by (simp add: SpringMass_init_def getitem_def coefficient_def Number_def Let_def numeral_2_eq_2)

lemma inverse_equations:
  "SpringMass_init [PInt 2, PInt 1, PInt 1, PStr ''k4''] [PStr ''m1'', PInt 1, PInt 1] =
     Inr \<lparr>equations =
      [(''ode_x1'', Sub (Add (Mul (Function ''m1'') (Derivative ''x1'' 2))
                             (Mul (Integer 2) (Function ''x1'')))
                        (Mul (Integer 1) (Sub (Function ''x2'') (Function ''x1'')))),
       (''ode_x2'', Sub (Add (Mul (Integer 1) (Derivative ''x2'' 2))
                             (Mul (Integer 1) (Sub (Function ''x2'') (Function ''x1''))))
                        (Mul (Integer 1) (Sub (Function ''x3'') (Function ''x2'')))),
       (''ode_x3'', Add (Add (Mul (Integer 1) (Derivative ''x3'' 2))
                             (Mul (Integer 1) (Sub (Function ''x3'') (Function ''x2''))))
                        (Mul (Function ''k4'') (Function ''x3'')))],
      self_k = [PInt 2, PInt 1, PInt 1, PStr ''k4''], self_m = [PStr ''m1'', PInt 1, PInt 1]\<rparr>"
  by (simp add: SpringMass_init_def getitem_def coefficient_def Number_def Let_def numeral_2_eq_2)

section \<open>Claims about the equation builders\<close>

text \<open>
  C1. For every coefficient tuple (four entries in \<open>k\<close>, three in \<open>m\<close>) whose entries are
  ints, floats or strings, SpringMass builds the three residuals with the constant
  \<open>Integer i\<close> or \<open>Float r\<close> where the coefficient is the int \<open>i\<close> or the float \<open>r\<close>, and with
  the function \<open>Function name\<close> of \<open>t\<close> where the coefficient is the string \<open>name\<close>. A numeric
  coefficient is a constant and not a function; a string coefficient is a function and not
  a constant.
\<close>

theorem SpringMass_numeric_constant_string_function:
  assumes "length k = 4" and "length m = 3"
    and "\<forall>c \<in> set (k @ m). type_of c \<in> {T_str, T_int, T_float}"
  shows "SpringMass_init k m =
           Inr \<lparr>equations = residuals (map coefficient_term k) (map coefficient_term m),
                self_k = k, self_m = m\<rparr> \<and>
         (\<forall>c \<in> set (k @ m).
            (case c of
               PInt i \<Rightarrow> coefficient c = Sym (Integer i)
             | PFloat r \<Rightarrow> coefficient c = Sym (Float r)
             | PStr name \<Rightarrow> coefficient c = Sym (Function name)
             | _ \<Rightarrow> False) \<and>
            (type_of c \<in> {T_int, T_float} \<longrightarrow>
               is_constant (coefficient_term c) \<and> \<not> is_function (coefficient_term c)) \<and>
            (type_of c = T_str \<longrightarrow>
               is_function (coefficient_term c) \<and> \<not> is_constant (coefficient_term c)))"
proof (intro conjI ballI)
  show "SpringMass_init k m =
           Inr \<lparr>equations = residuals (map coefficient_term k) (map coefficient_term m),
                self_k = k, self_m = m\<rparr>"
  proof (rule SpringMass_init_accepted [OF assms(1) assms(2)])
    show "\<forall>c \<in> set (k @ m). type_of c \<notin> {T_bool, T_NoneType, T_list, T_numpy_bool}"
      using assms(3) by fastforce
  qed
next
  fix c assume "c \<in> set (k @ m)"
  then have ty: "type_of c \<in> {T_str, T_int, T_float}"
    using assms(3) by blast
  show "case c of
               PInt i \<Rightarrow> coefficient c = Sym (Integer i)
             | PFloat r \<Rightarrow> coefficient c = Sym (Float r)
             | PStr name \<Rightarrow> coefficient c = Sym (Function name)
             | _ \<Rightarrow> False"
    using ty by (cases c) (simp_all add: coefficient_def Number_def)
  show "type_of c \<in> {T_int, T_float} \<longrightarrow>
               is_constant (coefficient_term c) \<and> \<not> is_function (coefficient_term c)"
    by (cases c) simp_all
  show "type_of c = T_str \<longrightarrow>
               is_function (coefficient_term c) \<and> \<not> is_constant (coefficient_term c)"
    by (cases c) simp_all
qed

theorem SpringMass_numeric_constant_string_function_witness:
  "SpringMass_init [PInt 2, PFloat 1.5, PInt 1, PStr ''k4''] [PStr ''m1'', PInt 1, PInt 1] =
     Inr \<lparr>equations =
      [(''ode_x1'', Sub (Add (Mul (Function ''m1'') (Derivative ''x1'' 2))
                             (Mul (Integer 2) (Function ''x1'')))
                        (Mul (Float 1.5) (Sub (Function ''x2'') (Function ''x1'')))),
       (''ode_x2'', Sub (Add (Mul (Integer 1) (Derivative ''x2'' 2))
                             (Mul (Float 1.5) (Sub (Function ''x2'') (Function ''x1''))))
                        (Mul (Integer 1) (Sub (Function ''x3'') (Function ''x2'')))),
       (''ode_x3'', Add (Add (Mul (Integer 1) (Derivative ''x3'' 2))
                             (Mul (Integer 1) (Sub (Function ''x3'') (Function ''x2''))))
                        (Mul (Function ''k4'') (Function ''x3'')))],
      self_k = [PInt 2, PFloat 1.5, PInt 1, PStr ''k4''],
      self_m = [PStr ''m1'', PInt 1, PInt 1]\<rparr> \<and>
   coefficient (PFloat 1.5) = Sym (Float 1.5) \<and>
   coefficient (PStr ''k4'') = Sym (Function ''k4'')"
  using SpringMass_numeric_constant_string_function
    [of "[PInt 2, PFloat 1.5, PInt 1, PStr ''k4'']" "[PStr ''m1'', PInt 1, PInt 1]"]
  by (simp add: residuals_def)

text \<open>
  C2. With \<open>k = (2, 1, 1, 2)\<close> and \<open>m = (1, 1, 1)\<close>, substituting the closed-form solution
  \<open>x1 = 1/6 cos t + 1/2 cos (sqrt 3 t) + 1/3 cos (2 t)\<close>,
  \<open>x2 = 2/6 cos t - 1/3 cos (2 t)\<close>,
  \<open>x3 = 1/6 cos t - 1/2 cos (sqrt 3 t) + 1/3 cos (2 t)\<close>
  and its derivatives into the three residuals gives zero at every \<open>t\<close>.
\<close>

theorem closed_form_solution_zeroes_residuals:
  "trajectory solution_env \<and>
   (\<forall>t. solution_env ''x1'' 0 t = 1 / 6 * cos t + 1 / 2 * cos (sqrt 3 * t) + 1 / 3 * cos (2 * t) \<and>
        solution_env ''x2'' 0 t = 2 / 6 * cos t - 1 / 3 * cos (2 * t) \<and>
        solution_env ''x3'' 0 t = 1 / 6 * cos t - 1 / 2 * cos (sqrt 3 * t) + 1 / 3 * cos (2 * t)) \<and>
   (\<exists>sm ode_x1 ode_x2 ode_x3.
      SpringMass_init [PInt 2, PInt 1, PInt 1, PInt 2] [PInt 1, PInt 1, PInt 1] = Inr sm \<and>
      equations sm = [(''ode_x1'', ode_x1), (''ode_x2'', ode_x2), (''ode_x3'', ode_x3)] \<and>
      (\<forall>t. eval solution_env t ode_x1 = 0 \<and>
           eval solution_env t ode_x2 = 0 \<and>
           eval solution_env t ode_x3 = 0))"
proof -
  have closed: "solution_env ''x1'' 0 t = 1 / 6 * cos t + 1 / 2 * cos (sqrt 3 * t) + 1 / 3 * cos (2 * t) \<and>
        solution_env ''x2'' 0 t = 2 / 6 * cos t - 1 / 3 * cos (2 * t) \<and>
        solution_env ''x3'' 0 t = 1 / 6 * cos t - 1 / 2 * cos (sqrt 3 * t) + 1 / 3 * cos (2 * t)" for t
    by (simp add: sol_x1 sol_x2 sol_x3)
  have r1: "eval solution_env t (Sub (Add (Mul (Integer 1) (Derivative ''x1'' 2))
                             (Mul (Integer 2) (Function ''x1'')))
                        (Mul (Integer 1) (Sub (Function ''x2'') (Function ''x1'')))) = 0" for t
  proof -
    have "solution_env ''x1'' 2 t + 2 * solution_env ''x1'' 0 t
          - (solution_env ''x2'' 0 t - solution_env ''x1'' 0 t) = 0"
      unfolding acc_x1 sol_x1 sol_x2 by (simp add: algebra_simps)
    then have "complex_of_real (solution_env ''x1'' 2 t + 2 * solution_env ''x1'' 0 t
          - (solution_env ''x2'' 0 t - solution_env ''x1'' 0 t)) = 0"
      by simp
    then show ?thesis by simp
  qed
  have r2: "eval solution_env t (Sub (Add (Mul (Integer 1) (Derivative ''x2'' 2))
                             (Mul (Integer 1) (Sub (Function ''x2'') (Function ''x1''))))
                        (Mul (Integer 1) (Sub (Function ''x3'') (Function ''x2'')))) = 0" for t
  proof -
    have "solution_env ''x2'' 2 t + (solution_env ''x2'' 0 t - solution_env ''x1'' 0 t)
          - (solution_env ''x3'' 0 t - solution_env ''x2'' 0 t) = 0"
      unfolding acc_x2 sol_x1 sol_x2 sol_x3 by (simp add: algebra_simps)
    then have "complex_of_real (solution_env ''x2'' 2 t
          + (solution_env ''x2'' 0 t - solution_env ''x1'' 0 t)
          - (solution_env ''x3'' 0 t - solution_env ''x2'' 0 t)) = 0"
      by simp
    then show ?thesis by simp
  qed
  have r3: "eval solution_env t (Add (Add (Mul (Integer 1) (Derivative ''x3'' 2))
                             (Mul (Integer 1) (Sub (Function ''x3'') (Function ''x2''))))
                        (Mul (Integer 2) (Function ''x3''))) = 0" for t
  proof -
    have "solution_env ''x3'' 2 t + (solution_env ''x3'' 0 t - solution_env ''x2'' 0 t)
          + 2 * solution_env ''x3'' 0 t = 0"
      unfolding acc_x3 sol_x2 sol_x3 by (simp add: algebra_simps)
    then have "complex_of_real (solution_env ''x3'' 2 t
          + (solution_env ''x3'' 0 t - solution_env ''x2'' 0 t)
          + 2 * solution_env ''x3'' 0 t) = 0"
      by simp
    then show ?thesis by simp
  qed
  show ?thesis
    using trajectory_solution_env closed forward_equations r1 r2 r3 by simp
qed

text \<open>
  C3, as the specification states it, does not hold: a complex coefficient is neither a
  string nor an int or float, and construction succeeds with it embedded in the residuals.
\<close>

theorem complex_coefficient_is_embedded:
  "type_of (PComplex 0 2) \<notin> {T_str, T_int, T_float} \<and>
   SpringMass_init [PComplex 0 2, PInt 1, PInt 1, PInt 2] [PInt 1, PInt 1, PInt 1] =
     Inr \<lparr>equations =
      [(''ode_x1'', Sub (Add (Mul (Integer 1) (Derivative ''x1'' 2))
                             (Mul (Add (Float 0) (Mul (Float 2) ImaginaryUnit)) (Function ''x1'')))
                        (Mul (Integer 1) (Sub (Function ''x2'') (Function ''x1'')))),
       (''ode_x2'', Sub (Add (Mul (Integer 1) (Derivative ''x2'' 2))
                             (Mul (Integer 1) (Sub (Function ''x2'') (Function ''x1''))))
                        (Mul (Integer 1) (Sub (Function ''x3'') (Function ''x2'')))),
       (''ode_x3'', Add (Add (Mul (Integer 1) (Derivative ''x3'' 2))
                             (Mul (Integer 1) (Sub (Function ''x3'') (Function ''x2''))))
                        (Mul (Integer 2) (Function ''x3'')))],
      self_k = [PComplex 0 2, PInt 1, PInt 1, PInt 2], self_m = [PInt 1, PInt 1, PInt 1]\<rparr>"
  by (simp add: SpringMass_init_def getitem_def coefficient_def Number_def Let_def numeral_2_eq_2)

text \<open>
  C3, amended. The builder has no check of its own and reports no configuration error: a
  coefficient whose type is neither str nor int or float is left as it is and goes
  unconverted into the arithmetic of the residuals. For coefficients that are ints,
  floats, strings, bools, \<^verbatim>\<open>None\<close>, complex numbers, lists or the numpy scalars
  \<^verbatim>\<open>np.float64\<close> and \<^verbatim>\<open>np.bool_\<close>, construction fails, with the TypeError of that
  arithmetic, when one of them is a bool, \<^verbatim>\<open>None\<close>, a list or an \<^verbatim>\<open>np.bool_\<close>; otherwise it
  succeeds, with a complex coefficient embedded in the residuals as \<^verbatim>\<open>re + im*I\<close> and an
  \<^verbatim>\<open>np.float64\<close> as its float.
\<close>

theorem SpringMass_other_types_unchecked:
  assumes "length k = 4" and "length m = 3"
  shows "(\<forall>c \<in> set (k @ m). type_of c \<notin> {T_str, T_int, T_float} \<longrightarrow> coefficient c = Raw c) \<and>
         SpringMass_init k m =
           (if \<exists>c \<in> set (k @ m). type_of c \<in> {T_bool, T_NoneType, T_list, T_numpy_bool}
            then Inl TypeError
            else Inr \<lparr>equations = residuals (map coefficient_term k) (map coefficient_term m),
                      self_k = k, self_m = m\<rparr>) \<and>
         (\<forall>c \<in> set (k @ m).
            (case c of
               PComplex re im \<Rightarrow>
                 coefficient_term c = Add (Float re) (Mul (Float im) ImaginaryUnit)
             | PNumpyFloat r \<Rightarrow> coefficient_term c = Float r
             | _ \<Rightarrow> True))"
proof (intro conjI ballI impI)
  fix c assume "type_of c \<notin> {T_str, T_int, T_float}"
  then show "coefficient c = Raw c"
    by (cases c) (simp_all add: coefficient_def)
next
  show "SpringMass_init k m =
           (if \<exists>c \<in> set (k @ m). type_of c \<in> {T_bool, T_NoneType, T_list, T_numpy_bool}
            then Inl TypeError
            else Inr \<lparr>equations = residuals (map coefficient_term k) (map coefficient_term m),
                      self_k = k, self_m = m\<rparr>)"
  proof (cases "\<exists>c \<in> set (k @ m). type_of c \<in> {T_bool, T_NoneType, T_list, T_numpy_bool}")
    case True
    then show ?thesis
      using SpringMass_init_refused [OF assms] by simp
  next
    case False
    then have "\<forall>c \<in> set (k @ m). type_of c \<notin> {T_bool, T_NoneType, T_list, T_numpy_bool}"
      by blast
    then show ?thesis
      using SpringMass_init_accepted [OF assms] False by simp
  qed
next
  fix c
  show "case c of
               PComplex re im \<Rightarrow>
                 coefficient_term c = Add (Float re) (Mul (Float im) ImaginaryUnit)
             | PNumpyFloat r \<Rightarrow> coefficient_term c = Float r
             | _ \<Rightarrow> True"
    by (cases c) simp_all
qed

theorem SpringMass_other_types_unchecked_witness:
  "coefficient (PComplex 0 2) = Raw (PComplex 0 2) \<and>
   coefficient (PBool True) = Raw (PBool True) \<and>
   coefficient (PNumpyFloat 2) = Raw (PNumpyFloat 2) \<and>
   SpringMass_init [PComplex 0 2, PInt 1, PInt 1, PInt 2] [PInt 1, PInt 1, PBool True] =
     Inl TypeError \<and>
   SpringMass_init [PInt 2, PList [PInt 1], PInt 1, PInt 2] [PInt 1, PInt 1, PInt 1] =
     Inl TypeError \<and>
   SpringMass_init [PInt 2, PInt 1, PInt 1, PInt 2] [PNumpyBool True, PInt 1, PInt 1] =
     Inl TypeError \<and>
   SpringMass_init [PInt 2, PInt 1, PInt 1, PNone] [PInt 1, PInt 1, PInt 1] =
     Inl TypeError \<and>
   SpringMass_init [PNumpyFloat 2, PInt 1, PInt 1, PComplex 1 2] [PInt 1, PInt 1, PInt 1] =
     Inr \<lparr>equations = residuals
              [Float 2, Integer 1, Integer 1, Add (Float 1) (Mul (Float 2) ImaginaryUnit)]
              [Integer 1, Integer 1, Integer 1],
          self_k = [PNumpyFloat 2, PInt 1, PInt 1, PComplex 1 2],
          self_m = [PInt 1, PInt 1, PInt 1]\<rparr>"
  using SpringMass_other_types_unchecked
      [of "[PComplex 0 2, PInt 1, PInt 1, PInt 2]" "[PInt 1, PInt 1, PBool True]"]
    SpringMass_other_types_unchecked
      [of "[PInt 2, PList [PInt 1], PInt 1, PInt 2]" "[PInt 1, PInt 1, PInt 1]"]
    SpringMass_other_types_unchecked
      [of "[PInt 2, PInt 1, PInt 1, PInt 2]" "[PNumpyBool True, PInt 1, PInt 1]"]
    SpringMass_other_types_unchecked
      [of "[PInt 2, PInt 1, PInt 1, PNone]" "[PInt 1, PInt 1, PInt 1]"]
    SpringMass_other_types_unchecked
      [of "[PNumpyFloat 2, PInt 1, PInt 1, PComplex 1 2]" "[PInt 1, PInt 1, PInt 1]"]
  by simp

text \<open>
  C6. The inverse instance \<open>k = (2, 1, 1, "k4")\<close>, \<open>m = ("m1", 1, 1)\<close> has the residuals of
  the forward instance \<open>k = (2, 1, 1, 2)\<close>, \<open>m = (1, 1, 1)\<close> with the function \<open>m1\<close> of \<open>t\<close>
  in the place of the constant \<open>m1 = 1\<close> and the function \<open>k4\<close> in the place of the
  constant \<open>k4 = 2\<close>: putting the constants back for the two functions gives the forward
  residuals, the two functions occur once each, and they are the only functions besides
  the displacements, which are the only functions of the forward residuals.
\<close>

theorem inverse_residuals_differ_in_m1_and_k4:
  "\<exists>forward inverse.
     SpringMass_init [PInt 2, PInt 1, PInt 1, PInt 2] [PInt 1, PInt 1, PInt 1] = Inr forward \<and>
     SpringMass_init [PInt 2, PInt 1, PInt 1, PStr ''k4''] [PStr ''m1'', PInt 1, PInt 1] = Inr inverse \<and>
     equations forward =
       residuals [Integer 2, Integer 1, Integer 1, Integer 2] [Integer 1, Integer 1, Integer 1] \<and>
     equations inverse =
       residuals [Integer 2, Integer 1, Integer 1, Function ''k4'']
                 [Function ''m1'', Integer 1, Integer 1] \<and>
     map (\<lambda>(l, e). (l, subs ''m1'' (Integer 1) (subs ''k4'' (Integer 2) e))) (equations inverse) =
       equations forward \<and>
     filter (\<lambda>f. f \<notin> set [''x1'', ''x2'', ''x3''])
       (concat (map (\<lambda>(l, e). function_names e) (equations inverse))) = [''m1'', ''k4''] \<and>
     filter (\<lambda>f. f \<notin> set [''x1'', ''x2'', ''x3''])
       (concat (map (\<lambda>(l, e). function_names e) (equations forward))) = []"
  unfolding forward_equations inverse_equations
  by (simp add: residuals_def)

section \<open>Arrays with one column\<close>

lemma scalar_mul_column:
  "scalar_mul ar c (map (\<lambda>x. [f x]) v) = map (\<lambda>x. [f_mul ar c (f x)]) v"
  by (simp add: scalar_mul_def)

lemma np_cos_column: "np_cos ar (map (\<lambda>x. [f x]) v) = map (\<lambda>x. [f_cos ar (f x)]) v"
  by (simp add: np_cos_def)

lemma np_square_column:
  "np_square ar (map (\<lambda>x. [f x]) v) = map (\<lambda>x. [f_mul ar (f x) (f x)]) v"
  by (simp add: np_square_def)

lemma full_like_column: "full_like (map (\<lambda>x. [f x]) v) c = map (\<lambda>x. [c]) v"
  by (simp add: full_like_def)

lemma np_add_column:
  "np_add ar (map (\<lambda>x. [f x]) v) (map (\<lambda>x. [g x]) v) = map (\<lambda>x. [f_add ar (f x) (g x)]) v"
  by (induction v) (simp_all add: np_add_def)

lemma np_sub_column:
  "np_sub ar (map (\<lambda>x. [f x]) v) (map (\<lambda>x. [g x]) v) = map (\<lambda>x. [f_sub ar (f x) (g x)]) v"
  by (induction v) (simp_all add: np_sub_def)

lemmas column_simps = scalar_mul_column np_cos_column np_square_column full_like_column
  np_add_column np_sub_column

lemma expand_dims_column: "expand_dims v = map (\<lambda>x. [x]) v"
  by (simp add: expand_dims_def)

text \<open>The formulas of the notebooks at one time of the grid.\<close>

lemma displacements_column:
  "displacements ar (map (\<lambda>x. [x]) v) =
     [(''x1'', map (\<lambda>t. [f_add ar
                 (f_add ar (f_mul ar (f_div ar 1 6) (f_cos ar t))
                           (f_mul ar (f_div ar 1 2) (f_cos ar (f_mul ar (f_sqrt ar 3) t))))
                 (f_mul ar (f_div ar 1 3) (f_cos ar (f_mul ar 2 t)))]) v),
      (''x2'', map (\<lambda>t. [f_sub ar
                 (f_add ar (f_mul ar (f_div ar 2 6) (f_cos ar t))
                           (f_mul ar (f_div ar 0 2) (f_cos ar (f_mul ar (f_sqrt ar 3) t))))
                 (f_mul ar (f_div ar 1 3) (f_cos ar (f_mul ar 2 t)))]) v),
      (''x3'', map (\<lambda>t. [f_add ar
                 (f_sub ar (f_mul ar (f_div ar 1 6) (f_cos ar t))
                           (f_mul ar (f_div ar 1 2) (f_cos ar (f_mul ar (f_sqrt ar 3) t))))
                 (f_mul ar (f_div ar 1 3) (f_cos ar (f_mul ar 2 t)))]) v)]"
  unfolding displacements_def by (simp only: column_simps)

lemma exact_simps [simp]:
  "literal exact x = x" "f_add exact a b = a + b" "f_sub exact a b = a - b"
  "f_mul exact a b = a * b" "f_div exact a b = a / b"
  "f_cos exact x = cos x" "f_sin exact x = sin x" "f_sqrt exact x = sqrt x"
  by (simp_all add: exact_def)

lemma binary64_simps:
  "literal binary64 x = double x" "f_add binary64 a b = double (a + b)"
  "f_sub binary64 a b = double (a - b)" "f_mul binary64 a b = double (a * b)"
  "f_div binary64 a b = double (a / b)" "f_cos binary64 x = double (cos x)"
  "f_sin binary64 x = double (sin x)" "f_sqrt binary64 x = double (sqrt x)"
  by (simp_all add: binary64_def)

lemma ulp_numeral:
  "ulp (numeral n) x =
     (if x < 1 then ulp (pred_numeral n) (2 * x) / 2
      else if 2 \<le> x then ulp (pred_numeral n) (x / 2) * 2
      else 1 / 4503599627370496)"
  by (simp add: numeral_eq_Suc)

lemmas double_eval = double_def round_half_even_def Let_def ulp_numeral

lemma double_0 [simp]: "double 0 = 0"
  by (simp add: double_def)

lemma double_1 [simp]: "double 1 = 1"
  by (simp add: double_eval)

lemma displacements_exact:
  "displacements exact (map (\<lambda>x. [x]) v) =
     [(''x1'', map (\<lambda>x. [solution_env ''x1'' 0 x]) v),
      (''x2'', map (\<lambda>x. [solution_env ''x2'' 0 x]) v),
      (''x3'', map (\<lambda>x. [solution_env ''x3'' 0 x]) v)]"
  unfolding displacements_column sol_x1 sol_x2 sol_x3 by simp

lemma arange_exact:
  "step \<noteq> 0 \<Longrightarrow>
     arange exact 0 stop step = Inr (map (\<lambda>i. real i * step) [0..<nat \<lceil>stop / step\<rceil>])"
  by (simp add: arange_def)

lemma arange_binary64_projectile:
  "arange binary64 0 5 (literal binary64 0.01) =
     Inr (map (\<lambda>i. f_add binary64 0 (f_mul binary64 (real i) (literal binary64 0.01))) [0..<500])"
proof -
  have step: "double 0.01 \<noteq> 0"
    by (simp add: double_eval)
  have n: "\<lceil>double (double (5 - 0) / double 0.01)\<rceil> = 500"
    by (simp add: double_eval)
  show ?thesis
    unfolding arange_def binary64_simps using step n by simp
qed

lemma arange_binary64_forward:
  "arange binary64 0 t_max (literal binary64 0.001) =
     Inr (map (\<lambda>i. f_add binary64 0 (f_mul binary64 (real i) (literal binary64 0.001))) [0..<10000])"
proof -
  have step: "double 0.001 \<noteq> 0"
    by (simp add: double_eval)
  have n: "\<lceil>double (double (10 - 0) / double 0.001)\<rceil> = 10000"
    by (simp add: double_eval)
  show ?thesis
    unfolding arange_def binary64_simps t_max_def using step n by simp
qed

lemma arange_binary64_inverse:
  "arange binary64 0 t_max (literal binary64 0.01) =
     Inr (map (\<lambda>i. f_add binary64 0 (f_mul binary64 (real i) (literal binary64 0.01))) [0..<1000])"
proof -
  have step: "double 0.01 \<noteq> 0"
    by (simp add: double_eval)
  have n: "\<lceil>double (double (10 - 0) / double 0.01)\<rceil> = 1000"
    by (simp add: double_eval)
  show ?thesis
    unfolding arange_def binary64_simps t_max_def using step n by simp
qed

lemma projectile_validator_value:
  assumes "arange ar 0 5 (literal ar 0.01) = Inr T"
  shows "projectile_validator ar =
     Inr \<lparr>invar = [(''t'', map (\<lambda>t. [t]) T)],
          outvar =
            [(''x'', map (\<lambda>t. [f_mul ar (f_mul ar (v_o ar) (f_cos ar (theta ar))) t]) T),
             (''y'', map (\<lambda>t. [f_sub ar
                        (f_mul ar (f_mul ar (v_o ar) (f_sin ar (theta ar))) t)
                        (f_mul ar (f_mul ar (literal ar 0.5) (literal ar 9.81))
                                  (f_mul ar t t))]) T)],
          batch_size = 128\<rparr>"
  unfolding projectile_validator_def Let_def assms and_then.simps expand_dims_column
  by (simp only: column_simps)

lemma spring_mass_validator_value:
  assumes "arange ar 0 t_max (literal ar 0.001) = Inr T"
  shows "spring_mass_validator ar =
     Inr \<lparr>invar = [(''t'', map (\<lambda>t. [t]) T)],
          outvar = displacements ar (map (\<lambda>t. [t]) T),
          batch_size = 1024\<rparr>"
  unfolding spring_mass_validator_def Let_def assms and_then.simps expand_dims_column
  by (rule refl)

lemma inverse_data_value:
  assumes "arange ar 0 t_max (literal ar 0.01) = Inr T"
  shows "inverse_data ar cfg =
     Inr \<lparr>invar = [(''t'', map (\<lambda>t. [t]) T)],
          outvar = displacements ar (map (\<lambda>t. [t]) T) @
                   [(''ode_x1'', map (\<lambda>t. [0]) T), (''ode_x2'', map (\<lambda>t. [0]) T),
                    (''ode_x3'', map (\<lambda>t. [0]) T)],
          batch_size = cfg_data cfg\<rparr>"
  unfolding inverse_data_def Let_def assms and_then.simps expand_dims_column
    displacements_column full_like_column
  by (simp add: AList.update.simps)

lemma arange_exact_projectile:
  "arange exact 0 5 (literal exact 0.01) = Inr (map (\<lambda>i. real i * 0.01) [0..<500])"
  by (simp add: arange_exact)

lemma arange_exact_forward:
  "arange exact 0 t_max (literal exact 0.001) = Inr (map (\<lambda>i. real i * 0.001) [0..<10000])"
  by (simp add: arange_exact t_max_def)

lemma arange_exact_inverse:
  "arange exact 0 t_max (literal exact 0.01) = Inr (map (\<lambda>i. real i * 0.01) [0..<1000])"
  by (simp add: arange_exact t_max_def)

lemma rows_agree_projectile:
  assumes "arange ar 0 5 (literal ar 0.01) = Inr T"
  shows "\<exists>s. projectile_validator ar = Inr s \<and>
        map fst (invar s) = [''t''] \<and> map fst (outvar s) = [''x'', ''y''] \<and> rows_agree s"
  unfolding projectile_validator_value [OF assms] by (simp add: rows_agree_def)

lemma rows_agree_forward:
  assumes "arange ar 0 t_max (literal ar 0.001) = Inr T"
  shows "\<exists>s. spring_mass_validator ar = Inr s \<and>
        map fst (invar s) = [''t''] \<and> map fst (outvar s) = [''x1'', ''x2'', ''x3''] \<and>
        rows_agree s"
  unfolding spring_mass_validator_value [OF assms] displacements_column
  by (simp add: rows_agree_def)

lemma rows_agree_inverse:
  assumes "arange ar 0 t_max (literal ar 0.01) = Inr T"
  shows "\<exists>s. inverse_data ar cfg = Inr s \<and>
        map fst (invar s) = [''t''] \<and>
        map fst (outvar s) = [''x1'', ''x2'', ''x3'', ''ode_x1'', ''ode_x2'', ''ode_x3''] \<and>
        rows_agree s"
  unfolding inverse_data_value [OF assms] displacements_column
  by (simp add: rows_agree_def)

lemma solution_env_velocity_0: "solution_env f 1 0 = 0"
  by (simp add: solution_env_def closed_form_def cosines_def)

lemma solution_env_deriv_0: "(solution_env f 0 has_field_derivative 0) (at 0)"
proof -
  have "(solution_env f 0 has_field_derivative solution_env f (Suc 0) 0) (at 0)"
    using trajectory_solution_env unfolding trajectory_def by blast
  then show ?thesis
    using solution_env_velocity_0 [of f] by simp
qed

lemma solution_env_position_0:
  "solution_env ''x1'' 0 0 = 1" "solution_env ''x2'' 0 0 = 0" "solution_env ''x3'' 0 0 = 0"
  by (simp_all add: sol_x1 sol_x2 sol_x3)

text \<open>The first rows of the displacement arrays in binary64: the formulas at \<open>t = 0\<close>.\<close>

lemma binary64_x1_at_0:
  "f_add binary64
     (f_add binary64 (f_mul binary64 (f_div binary64 1 6) (f_cos binary64 0))
        (f_mul binary64 (f_div binary64 1 2)
           (f_cos binary64 (f_mul binary64 (f_sqrt binary64 3) 0))))
     (f_mul binary64 (f_div binary64 1 3) (f_cos binary64 (f_mul binary64 2 0))) = 1"
  unfolding binary64_simps
  by (simp only: mult_zero_right double_0 cos_zero) (simp add: double_eval)

lemma binary64_x2_at_0:
  "f_sub binary64
     (f_add binary64 (f_mul binary64 (f_div binary64 2 6) (f_cos binary64 0))
        (f_mul binary64 (f_div binary64 0 2)
           (f_cos binary64 (f_mul binary64 (f_sqrt binary64 3) 0))))
     (f_mul binary64 (f_div binary64 1 3) (f_cos binary64 (f_mul binary64 2 0))) = 0"
  unfolding binary64_simps
  by (simp only: mult_zero_right double_0 cos_zero) (simp add: double_eval)

lemma binary64_x3_at_0:
  "f_add binary64
     (f_sub binary64 (f_mul binary64 (f_div binary64 1 6) (f_cos binary64 0))
        (f_mul binary64 (f_div binary64 1 2)
           (f_cos binary64 (f_mul binary64 (f_sqrt binary64 3) 0))))
     (f_mul binary64 (f_div binary64 1 3) (f_cos binary64 (f_mul binary64 2 0))) =
   - (1 / 18014398509481984)"
  unfolding binary64_simps
  by (simp only: mult_zero_right double_0 cos_zero) (simp add: double_eval)

lemma binary64_grid_0 [simp]: "f_add binary64 0 (f_mul binary64 0 step) = 0"
  by (simp add: binary64_simps)

section \<open>Claims about the sample sets\<close>

text \<open>
  C4. The projectile validator, with initial velocity 40 and angle \<open>pi / 3\<close>, has as input
  the grid of the 500 times \<open>i * 0.01\<close>, all in \<open>[0, 5)\<close>, one per row, and as targets
  \<open>x = 40 * cos (pi / 3) * t\<close> and \<open>y = 40 * sin (pi / 3) * t - 4.905 * t\<^sup>2\<close> at each time of
  that grid. In binary64 the same holds with every operation rounded: the grid has 500
  times, the first 0 and the last below 5, \<open>0.5 * 9.81\<close> is the float \<open>4.905\<close>, and the
  targets are the two formulas at each time of the grid.
\<close>

theorem projectile_validator_grid_and_targets:
  "(\<exists>T. T = map (\<lambda>i. real i * 0.01) [0..<500] \<and>
        list_all (\<lambda>t. 0 \<le> t \<and> t < 5) T \<and>
        projectile_validator exact =
          Inr \<lparr>invar = [(''t'', map (\<lambda>t. [t]) T)],
               outvar = [(''x'', map (\<lambda>t. [40 * cos (pi / 3) * t]) T),
                         (''y'', map (\<lambda>t. [40 * sin (pi / 3) * t - 4.905 * t\<^sup>2]) T)],
               batch_size = 128\<rparr>) \<and>
   (\<exists>T. T = map (\<lambda>i. f_add binary64 0 (f_mul binary64 (real i) (literal binary64 0.01)))
                [0..<500] \<and>
        T ! 0 = 0 \<and> T ! 499 < 5 \<and>
        f_mul binary64 (literal binary64 0.5) (literal binary64 9.81) = literal binary64 4.905 \<and>
        projectile_validator binary64 =
          Inr \<lparr>invar = [(''t'', map (\<lambda>t. [t]) T)],
               outvar =
                 [(''x'', map (\<lambda>t. [f_mul binary64
                      (f_mul binary64 (literal binary64 40)
                         (f_cos binary64 (f_div binary64 (literal binary64 pi) 3))) t]) T),
                  (''y'', map (\<lambda>t. [f_sub binary64
                      (f_mul binary64
                         (f_mul binary64 (literal binary64 40)
                            (f_sin binary64 (f_div binary64 (literal binary64 pi) 3))) t)
                      (f_mul binary64 (literal binary64 4.905) (f_mul binary64 t t))]) T)],
               batch_size = 128\<rparr>)"
proof (intro conjI)
  have range: "list_all (\<lambda>t. 0 \<le> t \<and> t < 5) (map (\<lambda>i. real i * 0.01) [0..<500])"
    by (simp add: list_all_iff)
  have half: "0.5 * 9.81 = (4.905 :: real)"
    by simp
  have "projectile_validator exact =
          Inr \<lparr>invar = [(''t'', map (\<lambda>t. [t]) (map (\<lambda>i. real i * 0.01) [0..<500]))],
               outvar = [(''x'', map (\<lambda>t. [40 * cos (pi / 3) * t])
                                   (map (\<lambda>i. real i * 0.01) [0..<500])),
                         (''y'', map (\<lambda>t. [40 * sin (pi / 3) * t - 4.905 * t\<^sup>2])
                                   (map (\<lambda>i. real i * 0.01) [0..<500]))],
               batch_size = 128\<rparr>"
    unfolding projectile_validator_value [OF arange_exact_projectile] exact_simps
      v_o_def theta_def half
    by (simp add: power2_eq_square)
  then show "\<exists>T. T = map (\<lambda>i. real i * 0.01) [0..<500] \<and>
        list_all (\<lambda>t. 0 \<le> t \<and> t < 5) T \<and>
        projectile_validator exact =
          Inr \<lparr>invar = [(''t'', map (\<lambda>t. [t]) T)],
               outvar = [(''x'', map (\<lambda>t. [40 * cos (pi / 3) * t]) T),
                         (''y'', map (\<lambda>t. [40 * sin (pi / 3) * t - 4.905 * t\<^sup>2]) T)],
               batch_size = 128\<rparr>"
    using range by simp
next
  have first: "f_add binary64 0 (f_mul binary64 0 (literal binary64 0.01)) = 0"
    by simp
  have last: "f_add binary64 0 (f_mul binary64 (real 499) (literal binary64 0.01)) < 5"
    unfolding binary64_simps by (simp add: double_eval)
  have half: "f_mul binary64 (literal binary64 0.5) (literal binary64 9.81) = literal binary64 4.905"
    unfolding binary64_simps by (simp add: double_eval)
  have "projectile_validator binary64 =
          Inr \<lparr>invar = [(''t'', map (\<lambda>t. [t])
                    (map (\<lambda>i. f_add binary64 0 (f_mul binary64 (real i) (literal binary64 0.01)))
                       [0..<500]))],
               outvar =
                 [(''x'', map (\<lambda>t. [f_mul binary64
                      (f_mul binary64 (literal binary64 40)
                         (f_cos binary64 (f_div binary64 (literal binary64 pi) 3))) t])
                    (map (\<lambda>i. f_add binary64 0 (f_mul binary64 (real i) (literal binary64 0.01)))
                       [0..<500])),
                  (''y'', map (\<lambda>t. [f_sub binary64
                      (f_mul binary64
                         (f_mul binary64 (literal binary64 40)
                            (f_sin binary64 (f_div binary64 (literal binary64 pi) 3))) t)
                      (f_mul binary64 (literal binary64 4.905) (f_mul binary64 t t))])
                    (map (\<lambda>i. f_add binary64 0 (f_mul binary64 (real i) (literal binary64 0.01)))
                       [0..<500]))],
               batch_size = 128\<rparr>"
    unfolding projectile_validator_value [OF arange_binary64_projectile] v_o_def theta_def half
    by simp
  then show "\<exists>T. T = map (\<lambda>i. f_add binary64 0 (f_mul binary64 (real i) (literal binary64 0.01)))
                [0..<500] \<and>
        T ! 0 = 0 \<and> T ! 499 < 5 \<and>
        f_mul binary64 (literal binary64 0.5) (literal binary64 9.81) = literal binary64 4.905 \<and>
        projectile_validator binary64 =
          Inr \<lparr>invar = [(''t'', map (\<lambda>t. [t]) T)],
               outvar =
                 [(''x'', map (\<lambda>t. [f_mul binary64
                      (f_mul binary64 (literal binary64 40)
                         (f_cos binary64 (f_div binary64 (literal binary64 pi) 3))) t]) T),
                  (''y'', map (\<lambda>t. [f_sub binary64
                      (f_mul binary64
                         (f_mul binary64 (literal binary64 40)
                            (f_sin binary64 (f_div binary64 (literal binary64 pi) 3))) t)
                      (f_mul binary64 (literal binary64 4.905) (f_mul binary64 t t))]) T)],
               batch_size = 128\<rparr>"
    using first last half by simp
qed

text \<open>
  C8. In each sample set built from numpy arrays (the projectile validator, the
  spring-mass validator and the data of the inverse problem) every target array has as many
  rows as every input array, in exact arithmetic and in binary64.
\<close>

theorem numpy_sample_sets_rows_agree:
  "list_all (\<lambda>ar.
     (\<exists>s. projectile_validator ar = Inr s \<and>
          map fst (invar s) = [''t''] \<and> map fst (outvar s) = [''x'', ''y''] \<and> rows_agree s) \<and>
     (\<exists>s. spring_mass_validator ar = Inr s \<and>
          map fst (invar s) = [''t''] \<and> map fst (outvar s) = [''x1'', ''x2'', ''x3''] \<and>
          rows_agree s) \<and>
     (\<exists>s. inverse_data ar cfg = Inr s \<and>
          map fst (invar s) = [''t''] \<and>
          map fst (outvar s) = [''x1'', ''x2'', ''x3'', ''ode_x1'', ''ode_x2'', ''ode_x3''] \<and>
          rows_agree s))
     [exact, binary64]"
  using rows_agree_projectile [OF arange_exact_projectile]
    rows_agree_forward [OF arange_exact_forward]
    rows_agree_inverse [OF arange_exact_inverse, of cfg]
    rows_agree_projectile [OF arange_binary64_projectile]
    rows_agree_forward [OF arange_binary64_forward]
    rows_agree_inverse [OF arange_binary64_inverse, of cfg]
  by simp

text \<open>
  C10, as the specification states it, does not hold of the arrays the notebook computes:
  in binary64 the first row of the array of \<open>x3\<close> is \<open>- 2 ^ -54\<close>, not 0.
\<close>

theorem binary64_x3_first_row_not_zero:
  "first_row (spring_mass_validator binary64) ''x3'' = Some [- (1 / 18014398509481984)] \<and>
   first_row (spring_mass_validator binary64) ''x3'' \<noteq> Some [0]"
proof -
  have "first_row (spring_mass_validator binary64) ''x3'' = Some [- (1 / 18014398509481984)]"
    unfolding spring_mass_validator_value [OF arange_binary64_forward] displacements_column
    by (simp add: first_row_def binary64_x3_at_0)
  then show ?thesis by simp
qed

text \<open>
  C10, amended. In exact arithmetic the closed-form arrays agree with the
  initial-condition targets: in the validator of the forward problem and in the data of the
  inverse problem the arrays hold the closed-form functions at the times of the grid, whose
  first time is 0, their first rows are \<open>x1 = 1\<close>, \<open>x2 = 0\<close>, \<open>x3 = 0\<close>, and the derivative of
  each closed-form function at \<open>t = 0\<close> is 0; these are the targets of the initial condition
  in both setups. In binary64 the first rows are 1, 0 and \<open>- 2 ^ -54\<close>: the array of \<open>x3\<close>
  misses its target by one rounding error.
\<close>

theorem closed_form_agrees_with_initial_condition:
  "(\<exists>T. T ! 0 = 0 \<and>
        spring_mass_validator exact =
          Inr \<lparr>invar = [(''t'', map (\<lambda>t. [t]) T)],
               outvar = map (\<lambda>f. (f, map (\<lambda>t. [solution_env f 0 t]) T)) [''x1'', ''x2'', ''x3''],
               batch_size = 1024\<rparr>) \<and>
   map (first_row (spring_mass_validator exact)) [''x1'', ''x2'', ''x3''] =
     [Some [1], Some [0], Some [0]] \<and>
   map (first_row (inverse_data exact cfg)) [''x1'', ''x2'', ''x3''] =
     [Some [1], Some [0], Some [0]] \<and>
   solution_env ''x1'' 0 0 = 1 \<and> solution_env ''x2'' 0 0 = 0 \<and> solution_env ''x3'' 0 0 = 0 \<and>
   (solution_env ''x1'' 0 has_field_derivative 0) (at 0) \<and>
   (solution_env ''x2'' 0 has_field_derivative 0) (at 0) \<and>
   (solution_env ''x3'' 0 has_field_derivative 0) (at 0) \<and>
   bc_outvar (spring_mass_IC cfg) =
     [(''x1'', 1), (''x2'', 0), (''x3'', 0), (''x1__t'', 0), (''x2__t'', 0), (''x3__t'', 0)] \<and>
   bc_outvar (inverse_IC cfg) =
     [(''x1'', 1), (''x2'', 0), (''x3'', 0), (''x1__t'', 0), (''x2__t'', 0), (''x3__t'', 0)] \<and>
   map (first_row (spring_mass_validator binary64)) [''x1'', ''x2'', ''x3''] =
     [Some [1], Some [0], Some [- (1 / 18014398509481984)]] \<and>
   map (first_row (inverse_data binary64 cfg)) [''x1'', ''x2'', ''x3''] =
     [Some [1], Some [0], Some [- (1 / 18014398509481984)]]"
proof -
  have arrays: "\<exists>T. T ! 0 = 0 \<and>
        spring_mass_validator exact =
          Inr \<lparr>invar = [(''t'', map (\<lambda>t. [t]) T)],
               outvar = map (\<lambda>f. (f, map (\<lambda>t. [solution_env f 0 t]) T)) [''x1'', ''x2'', ''x3''],
               batch_size = 1024\<rparr>"
    unfolding spring_mass_validator_value [OF arange_exact_forward] displacements_exact
    by (rule exI [of _ "map (\<lambda>i. real i * 0.001) [0..<10000]"]) simp
  have fwd: "map (first_row (spring_mass_validator exact)) [''x1'', ''x2'', ''x3''] =
     [Some [1], Some [0], Some [0]]"
    unfolding spring_mass_validator_value [OF arange_exact_forward] displacements_exact
    by (simp add: first_row_def solution_env_position_0)
  have inv: "map (first_row (inverse_data exact cfg)) [''x1'', ''x2'', ''x3''] =
     [Some [1], Some [0], Some [0]]"
    unfolding inverse_data_value [OF arange_exact_inverse] displacements_exact
    by (simp add: first_row_def solution_env_position_0)
  have fwd64: "map (first_row (spring_mass_validator binary64)) [''x1'', ''x2'', ''x3''] =
     [Some [1], Some [0], Some [- (1 / 18014398509481984)]]"
    unfolding spring_mass_validator_value [OF arange_binary64_forward] displacements_column
    by (simp add: first_row_def binary64_x1_at_0 binary64_x2_at_0 binary64_x3_at_0)
  have inv64: "map (first_row (inverse_data binary64 cfg)) [''x1'', ''x2'', ''x3''] =
     [Some [1], Some [0], Some [- (1 / 18014398509481984)]]"
    unfolding inverse_data_value [OF arange_binary64_inverse] displacements_column
    by (simp add: first_row_def binary64_x1_at_0 binary64_x2_at_0 binary64_x3_at_0)
  have ic: "bc_outvar (spring_mass_IC cfg) =
     [(''x1'', 1), (''x2'', 0), (''x3'', 0), (''x1__t'', 0), (''x2__t'', 0), (''x3__t'', 0)]"
    "bc_outvar (inverse_IC cfg) =
     [(''x1'', 1), (''x2'', 0), (''x3'', 0), (''x1__t'', 0), (''x2__t'', 0), (''x3__t'', 0)]"
    by (simp_all add: spring_mass_IC_def inverse_IC_def)
  show ?thesis
    using arrays fwd inv fwd64 inv64 ic solution_env_position_0 solution_env_deriv_0
    by blast
qed

section \<open>Claims about residuals and their targets\<close>

lemma one_side: "a + b - c = 0 \<longleftrightarrow> a = - b + c" for a b c :: complex
proof
  assume "a + b - c = 0"
  then show "a = - b + c" by algebra
next
  assume "a = - b + c"
  then show "a + b - c = 0" by simp
qed

lemma one_side': "a + b + c = 0 \<longleftrightarrow> a = - b - c" for a b c :: complex
proof
  assume "a + b + c = 0"
  then show "a = - b - c" by algebra
next
  assume "a = - b - c"
  then show "a + b + c = 0" by simp
qed

lemma ProjectileEquation_equations:
  "equations ProjectileEquation_init = [(''ode_x'', Derivative ''x'' 2), (''ode_y'', Derivative ''y'' 2)]"
  by (simp add: ProjectileEquation_init_def diff_n_def numeral_2_eq_2)

text \<open>
  C5. Every residual has all the terms of its equation on one side, and a source term is
  a target. For the projectile, the residuals are the bare second derivatives and the
  interior constraint, with targets 0 and -9.81, holds exactly when \<open>x'' = 0\<close> and
  \<open>y'' = -9.81\<close>. For the spring-mass system with int, float or string coefficients, the
  interior constraint, with targets 0, holds exactly when the three equations of motion
  \<open>m1 x1'' = - k1 x1 + k2 (x2 - x1)\<close>, \<open>m2 x2'' = - k2 (x2 - x1) + k3 (x3 - x2)\<close>,
  \<open>m3 x3'' = - k3 (x3 - x2) - k4 x3\<close> hold. No residual holds a source term: all five are
  zero on the functions that are zero everywhere.
\<close>

theorem residuals_are_one_sided:
  assumes "length k = 4" and "length m = 3"
    and "\<forall>c \<in> set (k @ m). type_of c \<in> {T_str, T_int, T_float}"
  shows
   "equations ProjectileEquation_init =
      [(''ode_x'', Derivative ''x'' 2), (''ode_y'', Derivative ''y'' 2)] \<and>
    bc_outvar (projectile_interior exact cfg) = [(''ode_x'', 0), (''ode_y'', - 9.81)] \<and>
    bc_outvar (spring_mass_interior cfg) = [(''ode_x1'', 0), (''ode_x2'', 0), (''ode_x3'', 0)] \<and>
    (\<forall>env t.
       constraint_holds env t (equations ProjectileEquation_init)
         (bc_outvar (projectile_interior exact cfg)) \<longleftrightarrow>
       env ''x'' 2 t = 0 \<and> env ''y'' 2 t = - 9.81) \<and>
    (\<exists>sm. SpringMass_init k m = Inr sm \<and>
       (\<forall>env t.
          constraint_holds env t (equations sm) (bc_outvar (spring_mass_interior cfg)) \<longleftrightarrow>
          eval env t (Mul (coefficient_term (m ! 0)) (Derivative ''x1'' 2)) =
            - eval env t (Mul (coefficient_term (k ! 0)) (Function ''x1''))
            + eval env t (Mul (coefficient_term (k ! 1)) (Sub (Function ''x2'') (Function ''x1''))) \<and>
          eval env t (Mul (coefficient_term (m ! 1)) (Derivative ''x2'' 2)) =
            - eval env t (Mul (coefficient_term (k ! 1)) (Sub (Function ''x2'') (Function ''x1'')))
            + eval env t (Mul (coefficient_term (k ! 2)) (Sub (Function ''x3'') (Function ''x2''))) \<and>
          eval env t (Mul (coefficient_term (m ! 2)) (Derivative ''x3'' 2)) =
            - eval env t (Mul (coefficient_term (k ! 2)) (Sub (Function ''x3'') (Function ''x2'')))
            - eval env t (Mul (coefficient_term (k ! 3)) (Function ''x3''))) \<and>
       (\<forall>t. list_all (\<lambda>(l, e). eval (\<lambda>f n t. 0) t e = 0)
              (equations ProjectileEquation_init @ equations sm)))"
proof -
  have ok: "\<forall>c \<in> set (k @ m). type_of c \<notin> {T_bool, T_NoneType, T_list, T_numpy_bool}"
    using assms(3) by fastforce
  have build: "SpringMass_init k m =
      Inr \<lparr>equations = residuals (map coefficient_term k) (map coefficient_term m),
           self_k = k, self_m = m\<rparr>"
    by (rule SpringMass_init_accepted [OF assms(1) assms(2) ok])
  obtain k1 k2 k3 k4 where k: "k = [k1, k2, k3, k4]"
    using list4 [OF assms(1)] by blast
  obtain m1 m2 m3 where m: "m = [m1, m2, m3]"
    using list3 [OF assms(2)] by blast
  have proj: "constraint_holds env t (equations ProjectileEquation_init)
         (bc_outvar (projectile_interior exact cfg)) \<longleftrightarrow>
       env ''x'' 2 t = 0 \<and> env ''y'' 2 t = - 9.81" for env t
  proof -
    have "complex_of_real (env ''y'' 2 t) = of_real (- 9.81) \<longleftrightarrow> env ''y'' 2 t = - 9.81"
      by (rule of_real_eq_iff)
    then show ?thesis
      unfolding ProjectileEquation_equations
      by (simp add: constraint_holds_def projectile_interior_def exact_def)
  qed
  have spring: "constraint_holds env t
          (residuals (map coefficient_term k) (map coefficient_term m))
          (bc_outvar (spring_mass_interior cfg)) \<longleftrightarrow>
          eval env t (Mul (coefficient_term (m ! 0)) (Derivative ''x1'' 2)) =
            - eval env t (Mul (coefficient_term (k ! 0)) (Function ''x1''))
            + eval env t (Mul (coefficient_term (k ! 1)) (Sub (Function ''x2'') (Function ''x1''))) \<and>
          eval env t (Mul (coefficient_term (m ! 1)) (Derivative ''x2'' 2)) =
            - eval env t (Mul (coefficient_term (k ! 1)) (Sub (Function ''x2'') (Function ''x1'')))
            + eval env t (Mul (coefficient_term (k ! 2)) (Sub (Function ''x3'') (Function ''x2''))) \<and>
          eval env t (Mul (coefficient_term (m ! 2)) (Derivative ''x3'' 2)) =
            - eval env t (Mul (coefficient_term (k ! 2)) (Sub (Function ''x3'') (Function ''x2'')))
            - eval env t (Mul (coefficient_term (k ! 3)) (Function ''x3''))" for env t
  proof -
    have "constraint_holds env t
          (residuals (map coefficient_term k) (map coefficient_term m))
          (bc_outvar (spring_mass_interior cfg)) \<longleftrightarrow>
          eval env t (Sub (Add (Mul (coefficient_term (m ! 0)) (Derivative ''x1'' 2))
                               (Mul (coefficient_term (k ! 0)) (Function ''x1'')))
                          (Mul (coefficient_term (k ! 1)) (Sub (Function ''x2'') (Function ''x1'')))) = 0 \<and>
          eval env t (Sub (Add (Mul (coefficient_term (m ! 1)) (Derivative ''x2'' 2))
                               (Mul (coefficient_term (k ! 1)) (Sub (Function ''x2'') (Function ''x1''))))
                          (Mul (coefficient_term (k ! 2)) (Sub (Function ''x3'') (Function ''x2'')))) = 0 \<and>
          eval env t (Add (Add (Mul (coefficient_term (m ! 2)) (Derivative ''x3'' 2))
                               (Mul (coefficient_term (k ! 2)) (Sub (Function ''x3'') (Function ''x2''))))
                          (Mul (coefficient_term (k ! 3)) (Function ''x3''))) = 0"
      by (simp add: constraint_holds_def spring_mass_interior_def residuals_def k m del: eval.simps)
    then show ?thesis
      by (simp only: eval.simps(6) eval.simps(7) one_side one_side')
  qed
  have zero: "list_all (\<lambda>(l, e). eval (\<lambda>f n t. 0) t e = 0)
      (equations ProjectileEquation_init @
       residuals (map coefficient_term k) (map coefficient_term m))" for t
    unfolding ProjectileEquation_equations
    by (simp add: residuals_def k m)
  show ?thesis
    unfolding build
    using proj spring zero
    by (simp add: ProjectileEquation_equations projectile_interior_def spring_mass_interior_def exact_def)
qed

theorem residuals_are_one_sided_witness:
  "bc_outvar (projectile_interior exact \<lparr>cfg_IC = 100, cfg_interior = 1000, cfg_data = 0\<rparr>) =
     [(''ode_x'', 0), (''ode_y'', - 9.81)] \<and>
   (\<forall>env t.
      constraint_holds env t (equations ProjectileEquation_init)
        (bc_outvar (projectile_interior exact \<lparr>cfg_IC = 100, cfg_interior = 1000, cfg_data = 0\<rparr>)) \<longleftrightarrow>
      env ''x'' 2 t = 0 \<and> env ''y'' 2 t = - 9.81) \<and>
   (\<exists>sm. SpringMass_init [PInt 2, PInt 1, PInt 1, PStr ''k4''] [PStr ''m1'', PInt 1, PInt 1] = Inr sm \<and>
      (\<forall>t. list_all (\<lambda>(l, e). eval (\<lambda>f n t. 0) t e = 0)
             (equations ProjectileEquation_init @ equations sm)))"
proof -
  have len_k: "length [PInt 2, PInt 1, PInt 1, PStr ''k4''] = 4"
    by simp
  have len_m: "length [PStr ''m1'', PInt 1, PInt 1] = 3"
    by simp
  have types: "\<forall>c \<in> set ([PInt 2, PInt 1, PInt 1, PStr ''k4''] @ [PStr ''m1'', PInt 1, PInt 1]).
      type_of c \<in> {T_str, T_int, T_float}"
    by simp
  show ?thesis
    using residuals_are_one_sided [OF len_k len_m types,
        of "\<lparr>cfg_IC = 100, cfg_interior = 1000, cfg_data = 0\<rparr>"]
    by blast
qed

section \<open>Claims about loading and plotting\<close>

lemma lookup_column0_present:
  "map_of d key = Some a \<Longrightarrow> ncols a = 1 \<Longrightarrow> lookup_column0 d key = Inr (column a 0)"
  by (simp add: lookup_column0_def lookup_def column0_def)

lemma has_arrayE:
  assumes "has_array d n key"
  obtains a where "map_of d key = Some a" and "ncols a = 1" and "length (rows a) = n"
  using assms by (auto simp: has_array_def one_column_def split: option.splits)

lemma plot_one_column:
  assumes "column_count x = 1" and "column_count y = 1"
    and "first_dimension x = first_dimension y"
  shows "plot x y f l fig =
           Inr (case fig of
                  [] \<Rightarrow> [\<lparr>position = (1, 1, 1),
                           curves = [\<lparr>xdata = data_column x 0, ydata = data_column y 0,
                                       fmt = f, label = l\<rparr>]\<rparr>]
                | _ \<Rightarrow> butlast fig @
                    [(last fig)\<lparr>curves := curves (last fig) @
                        [\<lparr>xdata = data_column x 0, ydata = data_column y 0,
                           fmt = f, label = l\<rparr>]\<rparr>])"
  using assms by (cases fig) (simp_all add: plot_def Let_def)

lemma plot_key_present:
  assumes "map_of d ''t'' = Some t" and "ncols t = 1"
    and "map_of d key = Some a" and "ncols a = 1" and "length (rows a) = length (rows t)"
  shows "plot_key d key l fig =
           Inr (case fig of
                  [] \<Rightarrow> [\<lparr>position = (1, 1, 1),
                           curves = [\<lparr>xdata = column t 0, ydata = column a 0,
                                       fmt = '''', label = l\<rparr>]\<rparr>]
                | _ \<Rightarrow> butlast fig @
                    [(last fig)\<lparr>curves := curves (last fig) @
                        [\<lparr>xdata = column t 0, ydata = column a 0,
                           fmt = '''', label = l\<rparr>]\<rparr>])"
  using assms by (cases fig) (simp_all add: plot_key_def lookup_def plot_one_column)

lemma projectile_plot_missing:
  "fs ''./outputs/projectile/validators/validator.npz'' = None \<Longrightarrow>
     projectile_plot fs = Inl FileNotFoundError"
  by (simp add: projectile_plot_def np_load_def)

lemma spring_mass_plot_missing:
  "fs ''outputs/spring_mass_solver/validators/validator.npz'' = None \<Longrightarrow>
     spring_mass_plot fs = Inl FileNotFoundError"
  by (simp add: spring_mass_plot_def np_load_def)

lemma projectile_plot_present:
  assumes stored: "fs ''./outputs/projectile/validators/validator.npz'' = Some archive"
    and entry: "map_of archive ''arr_0'' = Some d"
    and wf: "validator_bundle [''x'', ''y''] d"
  shows "\<exists>t pred_x true_x pred_y true_y.
      map_of d ''t'' = Some t \<and>
      map_of d ''pred_x'' = Some pred_x \<and> map_of d ''true_x'' = Some true_x \<and>
      map_of d ''pred_y'' = Some pred_y \<and> map_of d ''true_y'' = Some true_y \<and>
      projectile_plot fs =
        Inr ([\<lparr>position = (1, 2, 1),
               curves = [\<lparr>xdata = column t 0, ydata = column pred_x 0,
                           fmt = ''--'', label = ''x_pred''\<rparr>,
                         \<lparr>xdata = column t 0, ydata = column true_x 0,
                           fmt = '''', label = ''x_true''\<rparr>]\<rparr>,
              \<lparr>position = (1, 2, 2),
               curves = [\<lparr>xdata = column t 0, ydata = column pred_y 0,
                           fmt = ''--'', label = ''y_pred''\<rparr>,
                         \<lparr>xdata = column t 0, ydata = column true_y 0,
                           fmt = '''', label = ''y_true''\<rparr>]\<rparr>],
             ''prediction'')"
proof -
  obtain t where t: "map_of d ''t'' = Some t" "ncols t = 1"
    and rest: "has_array d (length (rows t)) ''true_x''" "has_array d (length (rows t)) ''pred_x''"
              "has_array d (length (rows t)) ''true_y''" "has_array d (length (rows t)) ''pred_y''"
    using wf by (auto simp: validator_bundle_def one_column_def split: option.splits)
  obtain tx where tx: "map_of d ''true_x'' = Some tx" "ncols tx = 1" "length (rows tx) = length (rows t)"
    using rest(1) by (rule has_arrayE)
  obtain px where px: "map_of d ''pred_x'' = Some px" "ncols px = 1" "length (rows px) = length (rows t)"
    using rest(2) by (rule has_arrayE)
  obtain ty where ty: "map_of d ''true_y'' = Some ty" "ncols ty = 1" "length (rows ty) = length (rows t)"
    using rest(3) by (rule has_arrayE)
  obtain py where py: "map_of d ''pred_y'' = Some py" "ncols py = 1" "length (rows py) = length (rows t)"
    using rest(4) by (rule has_arrayE)
  have cols: "lookup_column0 d ''t'' = Inr (column t 0)"
      "lookup_column0 d ''true_x'' = Inr (column tx 0)" "lookup_column0 d ''pred_x'' = Inr (column px 0)"
      "lookup_column0 d ''true_y'' = Inr (column ty 0)" "lookup_column0 d ''pred_y'' = Inr (column py 0)"
    using t tx px ty py by (simp_all add: lookup_column0_present)
  have "projectile_plot fs =
        Inr ([\<lparr>position = (1, 2, 1),
               curves = [\<lparr>xdata = column t 0, ydata = column px 0,
                           fmt = ''--'', label = ''x_pred''\<rparr>,
                         \<lparr>xdata = column t 0, ydata = column tx 0,
                           fmt = '''', label = ''x_true''\<rparr>]\<rparr>,
              \<lparr>position = (1, 2, 2),
               curves = [\<lparr>xdata = column t 0, ydata = column py 0,
                           fmt = ''--'', label = ''y_pred''\<rparr>,
                         \<lparr>xdata = column t 0, ydata = column ty 0,
                           fmt = '''', label = ''y_true''\<rparr>]\<rparr>],
             ''prediction'')"
    unfolding projectile_plot_def
    by (simp add: np_load_def stored arr_0_def entry cols plot_def subplot_def Let_def column_def
          tx(3) px(3) ty(3) py(3))
  then show ?thesis
    using t tx px ty py by simp
qed

lemma spring_mass_plot_present:
  assumes stored: "fs ''outputs/spring_mass_solver/validators/validator.npz'' = Some archive"
    and entry: "map_of archive ''arr_0'' = Some d"
    and wf: "validator_bundle [''x1'', ''x2'', ''x3''] d"
  shows "\<exists>t true_x1 true_x2 true_x3 pred_x1 pred_x2 pred_x3.
      map_of d ''t'' = Some t \<and>
      map_of d ''true_x1'' = Some true_x1 \<and> map_of d ''pred_x1'' = Some pred_x1 \<and>
      map_of d ''true_x2'' = Some true_x2 \<and> map_of d ''pred_x2'' = Some pred_x2 \<and>
      map_of d ''true_x3'' = Some true_x3 \<and> map_of d ''pred_x3'' = Some pred_x3 \<and>
      spring_mass_plot fs =
        Inr ([\<lparr>position = (1, 1, 1),
               curves =
                 [\<lparr>xdata = column t 0, ydata = column true_x1 0, fmt = '''', label = ''True x1''\<rparr>,
                  \<lparr>xdata = column t 0, ydata = column true_x2 0, fmt = '''', label = ''True x2''\<rparr>,
                  \<lparr>xdata = column t 0, ydata = column true_x3 0, fmt = '''', label = ''True x3''\<rparr>,
                  \<lparr>xdata = column t 0, ydata = column pred_x1 0, fmt = '''', label = ''Pred x1''\<rparr>,
                  \<lparr>xdata = column t 0, ydata = column pred_x2 0, fmt = '''', label = ''Pred x2''\<rparr>,
                  \<lparr>xdata = column t 0, ydata = column pred_x3 0, fmt = '''', label = ''Pred x3''\<rparr>]\<rparr>],
             ''comparison_spring_mass.png'')"
proof -
  obtain t where t: "map_of d ''t'' = Some t" "ncols t = 1"
    and rest: "has_array d (length (rows t)) ''true_x1''" "has_array d (length (rows t)) ''pred_x1''"
              "has_array d (length (rows t)) ''true_x2''" "has_array d (length (rows t)) ''pred_x2''"
              "has_array d (length (rows t)) ''true_x3''" "has_array d (length (rows t)) ''pred_x3''"
    using wf by (auto simp: validator_bundle_def one_column_def split: option.splits)
  obtain t1 where t1: "map_of d ''true_x1'' = Some t1" "ncols t1 = 1" "length (rows t1) = length (rows t)"
    using rest(1) by (rule has_arrayE)
  obtain p1 where p1: "map_of d ''pred_x1'' = Some p1" "ncols p1 = 1" "length (rows p1) = length (rows t)"
    using rest(2) by (rule has_arrayE)
  obtain t2 where t2: "map_of d ''true_x2'' = Some t2" "ncols t2 = 1" "length (rows t2) = length (rows t)"
    using rest(3) by (rule has_arrayE)
  obtain p2 where p2: "map_of d ''pred_x2'' = Some p2" "ncols p2 = 1" "length (rows p2) = length (rows t)"
    using rest(4) by (rule has_arrayE)
  obtain t3 where t3: "map_of d ''true_x3'' = Some t3" "ncols t3 = 1" "length (rows t3) = length (rows t)"
    using rest(5) by (rule has_arrayE)
  obtain p3 where p3: "map_of d ''pred_x3'' = Some p3" "ncols p3 = 1" "length (rows p3) = length (rows t)"
    using rest(6) by (rule has_arrayE)
  have "spring_mass_plot fs =
        Inr ([\<lparr>position = (1, 1, 1),
               curves =
                 [\<lparr>xdata = column t 0, ydata = column t1 0, fmt = '''', label = ''True x1''\<rparr>,
                  \<lparr>xdata = column t 0, ydata = column t2 0, fmt = '''', label = ''True x2''\<rparr>,
                  \<lparr>xdata = column t 0, ydata = column t3 0, fmt = '''', label = ''True x3''\<rparr>,
                  \<lparr>xdata = column t 0, ydata = column p1 0, fmt = '''', label = ''Pred x1''\<rparr>,
                  \<lparr>xdata = column t 0, ydata = column p2 0, fmt = '''', label = ''Pred x2''\<rparr>,
                  \<lparr>xdata = column t 0, ydata = column p3 0, fmt = '''', label = ''Pred x3''\<rparr>]\<rparr>],
             ''comparison_spring_mass.png'')"
    unfolding spring_mass_plot_def
    by (simp add: np_load_def stored arr_0_def entry Let_def
          plot_key_present [OF t t1] plot_key_present [OF t p1]
          plot_key_present [OF t t2] plot_key_present [OF t p2]
          plot_key_present [OF t t3] plot_key_present [OF t p3])
  then show ?thesis
    using t t1 p1 t2 p2 t3 p3 by simp
qed

text \<open>
  C9. Each plotting cell fails with FileNotFoundError when its file
  \<^verbatim>\<open>validator.npz\<close> does not exist at the path the cell names. When the file exists and
  holds the validator's arrays (\<^verbatim>\<open>t\<close> and, for each dependent variable, a true and a
  predicted array, each of one column and of as many rows), the projectile cell draws one
  subplot for \<open>x\<close> and one for \<open>y\<close>, each with the predicted and the true curve against
  \<open>t\<close>, and the spring-mass cell draws six curves against \<open>t\<close>, the true and the predicted
  one of each of \<open>x1\<close>, \<open>x2\<close>, \<open>x3\<close>.
\<close>

theorem plotting_cells_fail_or_render:
  "(fs ''./outputs/projectile/validators/validator.npz'' = None \<longrightarrow>
      projectile_plot fs = Inl FileNotFoundError) \<and>
   (fs ''outputs/spring_mass_solver/validators/validator.npz'' = None \<longrightarrow>
      spring_mass_plot fs = Inl FileNotFoundError) \<and>
   (\<forall>archive d.
      fs ''./outputs/projectile/validators/validator.npz'' = Some archive \<and>
      map_of archive ''arr_0'' = Some d \<and> validator_bundle [''x'', ''y''] d \<longrightarrow>
      (\<exists>t pred_x true_x pred_y true_y.
         map_of d ''t'' = Some t \<and>
         map_of d ''pred_x'' = Some pred_x \<and> map_of d ''true_x'' = Some true_x \<and>
         map_of d ''pred_y'' = Some pred_y \<and> map_of d ''true_y'' = Some true_y \<and>
         projectile_plot fs =
           Inr ([\<lparr>position = (1, 2, 1),
                  curves = [\<lparr>xdata = column t 0, ydata = column pred_x 0,
                              fmt = ''--'', label = ''x_pred''\<rparr>,
                            \<lparr>xdata = column t 0, ydata = column true_x 0,
                              fmt = '''', label = ''x_true''\<rparr>]\<rparr>,
                 \<lparr>position = (1, 2, 2),
                  curves = [\<lparr>xdata = column t 0, ydata = column pred_y 0,
                              fmt = ''--'', label = ''y_pred''\<rparr>,
                            \<lparr>xdata = column t 0, ydata = column true_y 0,
                              fmt = '''', label = ''y_true''\<rparr>]\<rparr>],
                ''prediction''))) \<and>
   (\<forall>archive d.
      fs ''outputs/spring_mass_solver/validators/validator.npz'' = Some archive \<and>
      map_of archive ''arr_0'' = Some d \<and> validator_bundle [''x1'', ''x2'', ''x3''] d \<longrightarrow>
      (\<exists>t true_x1 true_x2 true_x3 pred_x1 pred_x2 pred_x3.
         map_of d ''t'' = Some t \<and>
         map_of d ''true_x1'' = Some true_x1 \<and> map_of d ''pred_x1'' = Some pred_x1 \<and>
         map_of d ''true_x2'' = Some true_x2 \<and> map_of d ''pred_x2'' = Some pred_x2 \<and>
         map_of d ''true_x3'' = Some true_x3 \<and> map_of d ''pred_x3'' = Some pred_x3 \<and>
         spring_mass_plot fs =
           Inr ([\<lparr>position = (1, 1, 1),
                  curves = [\<lparr>xdata = column t 0, ydata = column true_x1 0, fmt = '''', label = ''True x1''\<rparr>,
                            \<lparr>xdata = column t 0, ydata = column true_x2 0, fmt = '''', label = ''True x2''\<rparr>,
                            \<lparr>xdata = column t 0, ydata = column true_x3 0, fmt = '''', label = ''True x3''\<rparr>,
                            \<lparr>xdata = column t 0, ydata = column pred_x1 0, fmt = '''', label = ''Pred x1''\<rparr>,
                            \<lparr>xdata = column t 0, ydata = column pred_x2 0, fmt = '''', label = ''Pred x2''\<rparr>,
                            \<lparr>xdata = column t 0, ydata = column pred_x3 0, fmt = '''', label = ''Pred x3''\<rparr>]\<rparr>],
                ''comparison_spring_mass.png'')))"
proof (intro conjI allI impI)
  assume "fs ''./outputs/projectile/validators/validator.npz'' = None"
  then show "projectile_plot fs = Inl FileNotFoundError"
    by (rule projectile_plot_missing)
next
  assume "fs ''outputs/spring_mass_solver/validators/validator.npz'' = None"
  then show "spring_mass_plot fs = Inl FileNotFoundError"
    by (rule spring_mass_plot_missing)
next
  fix archive d
  assume "fs ''./outputs/projectile/validators/validator.npz'' = Some archive \<and>
      map_of archive ''arr_0'' = Some d \<and> validator_bundle [''x'', ''y''] d"
  then show "\<exists>t pred_x true_x pred_y true_y.
         map_of d ''t'' = Some t \<and>
         map_of d ''pred_x'' = Some pred_x \<and> map_of d ''true_x'' = Some true_x \<and>
         map_of d ''pred_y'' = Some pred_y \<and> map_of d ''true_y'' = Some true_y \<and>
         projectile_plot fs =
           Inr ([\<lparr>position = (1, 2, 1),
                  curves = [\<lparr>xdata = column t 0, ydata = column pred_x 0,
                              fmt = ''--'', label = ''x_pred''\<rparr>,
                            \<lparr>xdata = column t 0, ydata = column true_x 0,
                              fmt = '''', label = ''x_true''\<rparr>]\<rparr>,
                 \<lparr>position = (1, 2, 2),
                  curves = [\<lparr>xdata = column t 0, ydata = column pred_y 0,
                              fmt = ''--'', label = ''y_pred''\<rparr>,
                            \<lparr>xdata = column t 0, ydata = column true_y 0,
                              fmt = '''', label = ''y_true''\<rparr>]\<rparr>],
                ''prediction'')"
    using projectile_plot_present by blast
next
  fix archive d
  assume "fs ''outputs/spring_mass_solver/validators/validator.npz'' = Some archive \<and>
      map_of archive ''arr_0'' = Some d \<and> validator_bundle [''x1'', ''x2'', ''x3''] d"
  then show "\<exists>t true_x1 true_x2 true_x3 pred_x1 pred_x2 pred_x3.
         map_of d ''t'' = Some t \<and>
         map_of d ''true_x1'' = Some true_x1 \<and> map_of d ''pred_x1'' = Some pred_x1 \<and>
         map_of d ''true_x2'' = Some true_x2 \<and> map_of d ''pred_x2'' = Some pred_x2 \<and>
         map_of d ''true_x3'' = Some true_x3 \<and> map_of d ''pred_x3'' = Some pred_x3 \<and>
         spring_mass_plot fs =
           Inr ([\<lparr>position = (1, 1, 1),
                  curves = [\<lparr>xdata = column t 0, ydata = column true_x1 0, fmt = '''', label = ''True x1''\<rparr>,
                            \<lparr>xdata = column t 0, ydata = column true_x2 0, fmt = '''', label = ''True x2''\<rparr>,
                            \<lparr>xdata = column t 0, ydata = column true_x3 0, fmt = '''', label = ''True x3''\<rparr>,
                            \<lparr>xdata = column t 0, ydata = column pred_x1 0, fmt = '''', label = ''Pred x1''\<rparr>,
                            \<lparr>xdata = column t 0, ydata = column pred_x2 0, fmt = '''', label = ''Pred x2''\<rparr>,
                            \<lparr>xdata = column t 0, ydata = column pred_x3 0, fmt = '''', label = ''Pred x3''\<rparr>]\<rparr>],
                ''comparison_spring_mass.png'')"
    using spring_mass_plot_present by blast
qed

theorem plotting_cells_fail_or_render_witness:
  "projectile_plot Map.empty = Inl FileNotFoundError \<and>
   spring_mass_plot Map.empty = Inl FileNotFoundError \<and>
   projectile_plot
     [''./outputs/projectile/validators/validator.npz'' \<mapsto>
        [(''arr_0'', [(''t'', \<lparr>ncols = 1, rows = [[0], [1]]\<rparr>),
                      (''pred_x'', \<lparr>ncols = 1, rows = [[0], [19]]\<rparr>),
                      (''true_x'', \<lparr>ncols = 1, rows = [[0], [20]]\<rparr>),
                      (''pred_y'', \<lparr>ncols = 1, rows = [[0], [30]]\<rparr>),
                      (''true_y'', \<lparr>ncols = 1, rows = [[0], [29]]\<rparr>)])]] =
     Inr ([\<lparr>position = (1, 2, 1),
            curves = [\<lparr>xdata = [0, 1], ydata = [0, 19], fmt = ''--'', label = ''x_pred''\<rparr>,
                      \<lparr>xdata = [0, 1], ydata = [0, 20], fmt = '''', label = ''x_true''\<rparr>]\<rparr>,
           \<lparr>position = (1, 2, 2),
            curves = [\<lparr>xdata = [0, 1], ydata = [0, 30], fmt = ''--'', label = ''y_pred''\<rparr>,
                      \<lparr>xdata = [0, 1], ydata = [0, 29], fmt = '''', label = ''y_true''\<rparr>]\<rparr>],
          ''prediction'') \<and>
   spring_mass_plot
     [''outputs/spring_mass_solver/validators/validator.npz'' \<mapsto>
        [(''arr_0'', [(''t'', \<lparr>ncols = 1, rows = [[0], [1]]\<rparr>),
                      (''true_x1'', \<lparr>ncols = 1, rows = [[1], [5]]\<rparr>),
                      (''true_x2'', \<lparr>ncols = 1, rows = [[0], [6]]\<rparr>),
                      (''true_x3'', \<lparr>ncols = 1, rows = [[0], [7]]\<rparr>),
                      (''pred_x1'', \<lparr>ncols = 1, rows = [[2], [8]]\<rparr>),
                      (''pred_x2'', \<lparr>ncols = 1, rows = [[3], [9]]\<rparr>),
                      (''pred_x3'', \<lparr>ncols = 1, rows = [[4], [10]]\<rparr>)])]] =
     Inr ([\<lparr>position = (1, 1, 1),
            curves = [\<lparr>xdata = [0, 1], ydata = [1, 5], fmt = '''', label = ''True x1''\<rparr>,
                      \<lparr>xdata = [0, 1], ydata = [0, 6], fmt = '''', label = ''True x2''\<rparr>,
                      \<lparr>xdata = [0, 1], ydata = [0, 7], fmt = '''', label = ''True x3''\<rparr>,
                      \<lparr>xdata = [0, 1], ydata = [2, 8], fmt = '''', label = ''Pred x1''\<rparr>,
                      \<lparr>xdata = [0, 1], ydata = [3, 9], fmt = '''', label = ''Pred x2''\<rparr>,
                      \<lparr>xdata = [0, 1], ydata = [4, 10], fmt = '''', label = ''Pred x3''\<rparr>]\<rparr>],
          ''comparison_spring_mass.png'')"
proof -
  let ?dp = "[(''t'', \<lparr>ncols = 1, rows = [[0], [1]]\<rparr>),
              (''pred_x'', \<lparr>ncols = 1, rows = [[0], [19]]\<rparr>),
              (''true_x'', \<lparr>ncols = 1, rows = [[0], [20]]\<rparr>),
              (''pred_y'', \<lparr>ncols = 1, rows = [[0], [30]]\<rparr>),
              (''true_y'', \<lparr>ncols = 1, rows = [[0], [29 :: real]]\<rparr>)]"
  let ?ds = "[(''t'', \<lparr>ncols = 1, rows = [[0], [1]]\<rparr>),
              (''true_x1'', \<lparr>ncols = 1, rows = [[1], [5]]\<rparr>),
              (''true_x2'', \<lparr>ncols = 1, rows = [[0], [6]]\<rparr>),
              (''true_x3'', \<lparr>ncols = 1, rows = [[0], [7]]\<rparr>),
              (''pred_x1'', \<lparr>ncols = 1, rows = [[2], [8]]\<rparr>),
              (''pred_x2'', \<lparr>ncols = 1, rows = [[3], [9]]\<rparr>),
              (''pred_x3'', \<lparr>ncols = 1, rows = [[4], [10 :: real]]\<rparr>)]"
  have wp: "validator_bundle [''x'', ''y''] ?dp"
    by (simp add: validator_bundle_def has_array_def one_column_def)
  have ws: "validator_bundle [''x1'', ''x2'', ''x3''] ?ds"
    by (simp add: validator_bundle_def has_array_def one_column_def)
  show ?thesis
    using plotting_cells_fail_or_render [of Map.empty]
      plotting_cells_fail_or_render
        [of "[''./outputs/projectile/validators/validator.npz'' \<mapsto> [(''arr_0'', ?dp)]]",
         THEN conjunct2, THEN conjunct2, THEN conjunct1, rule_format, of "[(''arr_0'', ?dp)]" ?dp]
      plotting_cells_fail_or_render
        [of "[''outputs/spring_mass_solver/validators/validator.npz'' \<mapsto> [(''arr_0'', ?ds)]]",
         THEN conjunct2, THEN conjunct2, THEN conjunct2, rule_format, of "[(''arr_0'', ?ds)]" ?ds]
      wp ws
    by (simp add: column_def)
qed

end
